theory Spec2Isabelle
  imports
    Complex_Main
    "HOL-Library.Char_ord"
    "HOL-Library.List_Lexorder"
    "HOL-Library.Product_Lexorder"
    "HOL-Library.Multiset"
begin

section \<open>Values of the Python program\<close>

text \<open>
  The program is \<^verbatim>\<open>files_finder_by_date.py\<close>, one class \<^verbatim>\<open>FilesFinderByDate\<close>
  with the methods \<^verbatim>\<open>__init__\<close>, \<^verbatim>\<open>_walker\<close>, \<^verbatim>\<open>_sorter\<close> and
  \<^verbatim>\<open>find_files\<close>. Strings are \<open>string\<close> (ASCII text), timestamps are \<open>rat\<close>:
  the program only compares the finite floats that \<^verbatim>\<open>os.path.getmtime\<close> and
  \<^verbatim>\<open>datetime.timestamp\<close> return, and a finite float is a rational number, compared
  as one. Exceptions are values of \<open>py_error\<close>.
\<close>

datatype py_error = ValueError | AttributeError | OverflowError | TypeError | OSError

text \<open>
  A naive \<^verbatim>\<open>datetime.datetime\<close>. The calendar date is kept as its proleptic Gregorian
  ordinal (\<^verbatim>\<open>date.toordinal()\<close>, day 1 is 0001-01-01), which is in one-to-one
  correspondence with year, month and day.
\<close>

record datetime =
  toordinal :: int
  hour :: nat
  minute :: nat
  second :: nat
  microsecond :: nat

text \<open>What \<^verbatim>\<open>os.path.getmtime\<close>, \<^verbatim>\<open>getctime\<close> and \<^verbatim>\<open>getatime\<close> read of one file.\<close>

record stat =
  st_mtime :: rat
  st_ctime :: rat
  st_atime :: rat

text \<open>
  The library and operating-system calls whose results the program consumes. They are
  not code of the repository, so they are parameters of the model:
  \<^item> \<open>strptime s fmt\<close> is \<^verbatim>\<open>datetime.datetime.strptime(s, fmt)\<close>, \<open>None\<close> when it
    raises \<^verbatim>\<open>ValueError\<close>;
  \<^item> \<open>now_start\<close>, \<open>now_end\<close>, \<open>now_run\<close> are what \<^verbatim>\<open>datetime.datetime.now()\<close>
    returns where line 97, line 101 and line 179 read the clock;
  \<^item> \<open>timestamp d\<close> is \<^verbatim>\<open>d.timestamp()\<close>, \<open>None\<close> when it raises: a naive datetime
    is read as local time, and the dates at the two ends of the calendar (0001-01-01 in
    every zone, 9999-12-31 east of UTC) have no timestamp;
  \<^item> \<open>str_datetime\<close> is \<^verbatim>\<open>str\<close> of a datetime, \<open>time_ctime\<close> is \<^verbatim>\<open>time.ctime\<close>;
  \<^item> \<open>getcwd\<close> is the working directory when \<^verbatim>\<open>find_files\<close> starts, \<open>chdir p\<close> the
    working directory after \<^verbatim>\<open>os.chdir(p)\<close> (\<open>None\<close> when it raises), and
    \<open>abspath cwd p\<close> is \<^verbatim>\<open>os.path.abspath(p)\<close> when the working directory is \<open>cwd\<close>;
  \<^item> \<open>os_walk r\<close> lists the triples \<^verbatim>\<open>(root, dirs, files)\<close> that \<^verbatim>\<open>os.walk(r)\<close> yields;
  \<^item> \<open>os_stat p\<close> is what the walk observes of the path \<open>p\<close> when it inspects it:
    \<open>None\<close> when \<^verbatim>\<open>os.path.exists(p)\<close> is false, the three timestamps otherwise.
\<close>

record env =
  strptime :: "string \<Rightarrow> string \<Rightarrow> datetime option"
  now_start :: datetime
  now_end :: datetime
  now_run :: datetime
  timestamp :: "datetime \<Rightarrow> rat option"
  str_datetime :: "datetime \<Rightarrow> string"
  time_ctime :: "rat \<Rightarrow> string"
  getcwd :: string
  chdir :: "string \<Rightarrow> string option"
  abspath :: "string \<Rightarrow> string \<Rightarrow> string"
  os_walk :: "string \<Rightarrow> (string \<times> string list \<times> string list) list"
  os_stat :: "string \<Rightarrow> stat option"

text \<open>The attributes \<^verbatim>\<open>__init__\<close> assigns. \<open>self_extensions\<close> is \<open>None\<close> when the
  attribute \<^verbatim>\<open>_extensions\<close> was never assigned (lines 106 to 109 have no \<^verbatim>\<open>else\<close>).\<close>

record finder =
  self_root :: "string option"
  self_output_info_to :: "string option"
  self_start_date :: datetime
  self_end_date :: datetime
  self_sort_info :: bool
  self_extensions :: "string set option"

section \<open>String helpers of the Python library\<close>

definition nl :: string where
  "nl = [CHR 0x0A]"

text \<open>Truth value of an optional string: \<^verbatim>\<open>None\<close> and \<^verbatim>\<open>""\<close> are false.\<close>

definition truthy :: "string option \<Rightarrow> bool" where
  "truthy s = (case s of None \<Rightarrow> False | Some t \<Rightarrow> t \<noteq> [])"

definition startswith :: "string \<Rightarrow> string \<Rightarrow> bool" where
  "startswith s p = (take (length p) s = p)"

definition endswith :: "string \<Rightarrow> string \<Rightarrow> bool" where
  "endswith s p = (drop (length s - length p) s = p \<and> length p \<le> length s)"

text \<open>\<^verbatim>\<open>str.lower\<close> on ASCII text: the letters A to Z move to a to z.\<close>

definition lower_char :: "char \<Rightarrow> char" where
  "lower_char c =
     (if 65 \<le> (of_char c :: nat) \<and> (of_char c :: nat) \<le> 90
      then char_of ((of_char c :: nat) + 32) else c)"

definition lower :: "string \<Rightarrow> string" where
  "lower s = map lower_char s"

text \<open>\<^verbatim>\<open>sep.join(xs)\<close>.\<close>

fun str_join :: "string \<Rightarrow> string list \<Rightarrow> string" where
  "str_join sep [] = []"
| "str_join sep [x] = x"
| "str_join sep (x # y # ys) = x @ sep @ str_join sep (y # ys)"

text \<open>\<^verbatim>\<open>os.path.join(a, b)\<close> of \<^verbatim>\<open>posixpath\<close>, for two arguments.\<close>

definition path_join :: "string \<Rightarrow> string \<Rightarrow> string" where
  "path_join a b =
     (if startswith b ''/'' then b
      else if a = [] \<or> endswith a ''/'' then a @ b
      else a @ ''/'' @ b)"

text \<open>\<^verbatim>\<open>str.rfind\<close> of one character: the last index holding it, or \<open>-1\<close>.\<close>

fun rfind_from :: "char \<Rightarrow> string \<Rightarrow> int \<Rightarrow> int \<Rightarrow> int" where
  "rfind_from c [] i found = found"
| "rfind_from c (x # xs) i found = rfind_from c xs (i + 1) (if x = c then i else found)"

definition rfind :: "string \<Rightarrow> char \<Rightarrow> int" where
  "rfind p c = rfind_from c p 0 (- 1)"

text \<open>
  \<^verbatim>\<open>os.path.splitext\<close> of \<^verbatim>\<open>posixpath\<close> (\<^verbatim>\<open>genericpath._splitext\<close> with separator
  \<^verbatim>\<open>/\<close> and no alternative separator). The loop skips the leading dots of the file
  name: \<open>has_name_char p i d\<close> is true when the loop returns the split at the dot.
\<close>

function has_name_char :: "string \<Rightarrow> nat \<Rightarrow> nat \<Rightarrow> bool" where
  "has_name_char p filenameIndex dotIndex =
     (if filenameIndex < dotIndex
      then (if take 1 (drop filenameIndex p) \<noteq> ''.'' then True
            else has_name_char p (filenameIndex + 1) dotIndex)
      else False)"
  by pat_completeness auto
termination
  by (relation "measure (\<lambda>(p, i, d). d - i)") auto

declare has_name_char.simps [simp del]

definition splitext :: "string \<Rightarrow> string \<times> string" where
  "splitext p =
     (let sepIndex = rfind p (CHR ''/'');
          dotIndex = rfind p (CHR ''.'')
      in if dotIndex > sepIndex \<and> has_name_char p (nat (sepIndex + 1)) (nat dotIndex)
         then (take (nat dotIndex) p, drop (nat dotIndex) p)
         else (p, []))"

section \<open>The constructor\<close>

text \<open>\<^verbatim>\<open>dt - datetime.timedelta(days=n)\<close>: the date moves back, the time of day stays;
  a date before day 1 raises \<^verbatim>\<open>OverflowError\<close>.\<close>

definition minus_days :: "datetime \<Rightarrow> int \<Rightarrow> py_error + datetime" where
  "minus_days dt n =
     (if toordinal dt - n < 1 then Inl OverflowError
      else Inr (dt\<lparr>toordinal := toordinal dt - n\<rparr>))"

text \<open>Lines 107 to 108: one extension of the caller, normalised.\<close>

definition norm_ext :: "string \<Rightarrow> string" where
  "norm_ext ext = (if \<not> startswith ext ''.'' then ''.'' else []) @ lower ext"

text \<open>
  \<^verbatim>\<open>__init__\<close>, lines 92 to 109. \<open>extensions\<close> is a list of strings or \<^verbatim>\<open>None\<close>;
  the set comprehension runs only when the list is true, that is not empty.
\<close>

definition init ::
  "env \<Rightarrow> string option \<Rightarrow> string option \<Rightarrow> string option \<Rightarrow> bool \<Rightarrow> string option \<Rightarrow>
   string list option \<Rightarrow> bool \<Rightarrow> py_error + finder" where
  "init E root' start_date end_date include_time output_info_to extensions sort_info =
     (let date_format = (if \<not> include_time then ''%Y-%m-%d'' else ''%Y-%m-%d %H:%M:%S'') in
      case (if truthy start_date
            then (case strptime E (the start_date) date_format of
                    None \<Rightarrow> Inl ValueError | Some d \<Rightarrow> Inr d)
            else (case minus_days (now_start E) 7 of
                    Inl e \<Rightarrow> Inl e
                  | Inr d \<Rightarrow> Inr (d\<lparr>hour := 0, minute := 0, second := 0, microsecond := 0\<rparr>)))
      of Inl e \<Rightarrow> Inl e
       | Inr sd \<Rightarrow>
      (case (if truthy end_date
             then (case strptime E (the end_date) date_format of
                     None \<Rightarrow> Inl ValueError | Some d \<Rightarrow> Inr d)
             else Inr (now_end E))
       of Inl e \<Rightarrow> Inl e
        | Inr ed0 \<Rightarrow>
       (let ed = (if \<not> include_time then ed0\<lparr>hour := 23, minute := 59, second := 59\<rparr> else ed0)
        in Inr \<lparr>self_root = root',
                self_output_info_to = output_info_to,
                self_start_date = sd,
                self_end_date = ed,
                self_sort_info = sort_info,
                self_extensions =
                  (case extensions of
                     None \<Rightarrow> None
                   | Some exts \<Rightarrow> if exts \<noteq> [] then Some (set (map norm_ext exts)) else None)\<rparr>)))"

section \<open>Report files\<close>

text \<open>
  The report files are regular files in an output directory that exists: the file
  system is a map from a path to the text of the file there. \<open>write_file\<close> is
  \<^verbatim>\<open>open(p, 'w')\<close> followed by one \<^verbatim>\<open>write\<close>, \<open>append_file\<close> is \<^verbatim>\<open>open(p, 'a')\<close>
  followed by one \<^verbatim>\<open>write\<close> (it creates a file that is not there).
\<close>

type_synonym fsys = "string \<rightharpoonup> string"

definition write_file :: "fsys \<Rightarrow> string \<Rightarrow> string \<Rightarrow> fsys" where
  "write_file fs p t = fs(p \<mapsto> t)"

definition append_file :: "fsys \<Rightarrow> string \<Rightarrow> string \<Rightarrow> fsys" where
  "append_file fs p t = fs(p \<mapsto> (case fs p of None \<Rightarrow> t | Some old \<Rightarrow> old @ t))"

section \<open>The traversal\<close>

text \<open>A match tuple of line 136: \<^verbatim>\<open>(file_path, mtime, ctime, atime)\<close>.\<close>

type_synonym match = "string \<times> rat \<times> rat \<times> rat"

text \<open>Lines 138 to 141: the line of the primary report.\<close>

definition walker_line :: "env \<Rightarrow> match \<Rightarrow> string" where
  "walker_line E i =
     (case i of (file_path, mtime, ctime, atime) \<Rightarrow>
        ''file='' @ file_path @ '' | '' @
        ''mtime='' @ time_ctime E mtime @ '' | '' @
        ''ctime='' @ time_ctime E ctime @ '' | '' @
        ''atime='' @ time_ctime E atime @ nl)"

record walk_state =
  ws_founded :: nat
  ws_list :: "match list"
  ws_fsys :: fsys

text \<open>
  The body of the inner loop, lines 119 to 141, for one name \<open>file\<close> of the directory
  \<open>root'\<close>. Reading \<^verbatim>\<open>self._extensions\<close> on line 129 raises \<^verbatim>\<open>AttributeError\<close> when
  the constructor never assigned it.
\<close>

definition walker_file ::
  "env \<Rightarrow> finder \<Rightarrow> string \<Rightarrow> rat \<Rightarrow> rat \<Rightarrow> string \<Rightarrow> string \<Rightarrow> walk_state \<Rightarrow>
   py_error + walk_state" where
  "walker_file E self wfile start_date end_date root' file s =
     (let file_path = path_join root' file in
      case os_stat E file_path of
        None \<Rightarrow> Inr s
      | Some st \<Rightarrow>
          (let file_ext = lower (snd (splitext file_path));
               ctime = st_ctime st;
               mtime = st_mtime st;
               atime = st_atime st
           in case self_extensions self of
                None \<Rightarrow> Inl AttributeError
              | Some exts \<Rightarrow>
                  if exts \<noteq> {} \<and> file_ext \<notin> exts then Inr s
                  else if (start_date < mtime \<and> mtime < end_date)
                          \<or> (start_date < ctime \<and> ctime < end_date)
                          \<or> (start_date < atime \<and> atime < end_date)
                  then Inr \<lparr>ws_founded = ws_founded s + 1,
                            ws_list =
                              (if self_sort_info self
                               then ws_list s @ [(file_path, mtime, ctime, atime)]
                               else ws_list s),
                            ws_fsys =
                              append_file (ws_fsys s) wfile
                                (walker_line E (file_path, mtime, ctime, atime))\<rparr>
                  else Inr s))"

text \<open>The inner loop over the names of one directory, and the outer loop over the
  triples of the walk. An exception ends both; what was written stays written.\<close>

fun walker_files ::
  "env \<Rightarrow> finder \<Rightarrow> string \<Rightarrow> rat \<Rightarrow> rat \<Rightarrow> string \<Rightarrow> string list \<Rightarrow> walk_state \<Rightarrow>
   py_error option \<times> walk_state" where
  "walker_files E self wfile sd ed root' [] s = (None, s)"
| "walker_files E self wfile sd ed root' (file # files) s =
     (case walker_file E self wfile sd ed root' file s of
        Inl e \<Rightarrow> (Some e, s)
      | Inr s' \<Rightarrow> walker_files E self wfile sd ed root' files s')"

fun walker_dirs ::
  "env \<Rightarrow> finder \<Rightarrow> string \<Rightarrow> rat \<Rightarrow> rat \<Rightarrow> (string \<times> string list \<times> string list) list \<Rightarrow>
   walk_state \<Rightarrow> py_error option \<times> walk_state" where
  "walker_dirs E self wfile sd ed [] s = (None, s)"
| "walker_dirs E self wfile sd ed ((root', dirs, files) # rest) s =
     (case walker_files E self wfile sd ed root' files s of
        (Some e, s') \<Rightarrow> (Some e, s')
      | (None, s') \<Rightarrow> walker_dirs E self wfile sd ed rest s')"

text \<open>
  \<^verbatim>\<open>_walker\<close>, lines 111 to 142. The result is the returned pair, or the exception, and
  the file system as the walk left it. \<^verbatim>\<open>os.walk(None)\<close> on line 112 raises
  \<^verbatim>\<open>TypeError\<close>; \<^verbatim>\<open>timestamp()\<close> on line 113 or on line 114 raises \<^verbatim>\<open>ValueError\<close>
  for a bound that has no timestamp, before any file is inspected.
\<close>

definition walker ::
  "env \<Rightarrow> finder \<Rightarrow> string \<Rightarrow> fsys \<Rightarrow> (py_error + nat \<times> match list option) \<times> fsys" where
  "walker E self wfile fs =
     (case self_root self of
        None \<Rightarrow> (Inl TypeError, fs)
      | Some r \<Rightarrow>
          (case timestamp E (self_start_date self) of
             None \<Rightarrow> (Inl ValueError, fs)
           | Some start_date \<Rightarrow>
               (case timestamp E (self_end_date self) of
                  None \<Rightarrow> (Inl ValueError, fs)
                | Some end_date \<Rightarrow>
                    (case walker_dirs E self wfile start_date end_date (os_walk E r)
                            \<lparr>ws_founded = 0, ws_list = [], ws_fsys = fs\<rparr> of
                       (Some e, s) \<Rightarrow> (Inl e, ws_fsys s)
                     | (None, s) \<Rightarrow>
                         (Inr (ws_founded s,
                               if self_sort_info self then Some (ws_list s) else None),
                          ws_fsys s)))))"

section \<open>The sorted reports\<close>

text \<open>\<^verbatim>\<open>itemgetter(2, 1, 3, 0)\<close> of line 148, and the stable ascending sort by it.\<close>

definition itemgetter_2_1_3_0 :: "match \<Rightarrow> rat \<times> rat \<times> rat \<times> string" where
  "itemgetter_2_1_3_0 i = (case i of (i0, i1, i2, i3) \<Rightarrow> (i2, i1, i3, i0))"

definition sort_files_list :: "match list \<Rightarrow> match list" where
  "sort_files_list files_list = sort_key itemgetter_2_1_3_0 files_list"

text \<open>Lines 152 to 155 and lines 156 to 159: the two renderings of one tuple.\<close>

definition sorter_info :: "env \<Rightarrow> match \<Rightarrow> string" where
  "sorter_info E i =
     (case i of (i0, i1, i2, i3) \<Rightarrow>
        ''file: '' @ i0 @ nl @
        ''created: '' @ time_ctime E i2 @ nl @
        ''modified: '' @ time_ctime E i1 @ nl @
        ''accessed: '' @ time_ctime E i3 @ nl)"

definition sorter_info_table :: "env \<Rightarrow> match \<Rightarrow> string" where
  "sorter_info_table E i =
     (case i of (i0, i1, i2, i3) \<Rightarrow>
        ''file='' @ i0 @ ''   |   '' @
        ''mtime='' @ time_ctime E i2 @ ''   |   '' @
        ''ctime='' @ time_ctime E i1 @ ''   |   '' @
        ''atime='' @ time_ctime E i3)"

text \<open>\<^verbatim>\<open>_sorter\<close>, lines 145 to 165.\<close>

definition sorter :: "env \<Rightarrow> string \<Rightarrow> string \<Rightarrow> match list \<Rightarrow> fsys \<Rightarrow> fsys" where
  "sorter E list_file table_file files_list fs =
     (let sorted_list = sort_files_list files_list;
          infos_list = map (sorter_info E) sorted_list;
          infos_table = map (sorter_info_table E) sorted_list;
          fs1 = append_file fs list_file (str_join nl infos_list @ nl @ nl)
      in append_file fs1 table_file (str_join nl infos_table))"

section \<open>The run\<close>

text \<open>Lines 168 to 175: the resolved root and output directory.\<close>

definition resolve_dirs :: "env \<Rightarrow> finder \<Rightarrow> py_error + string \<times> string" where
  "resolve_dirs E self =
     (let out1 = (if truthy (self_output_info_to self)
                  then Some (abspath E (getcwd E) (the (self_output_info_to self)))
                  else self_output_info_to self)
      in case (if truthy (self_root self)
               then (case chdir E (the (self_root self)) of
                       None \<Rightarrow> Inl OSError | Some d \<Rightarrow> Inr d)
               else Inr (getcwd E))
         of Inl e \<Rightarrow> Inl e
          | Inr cwd \<Rightarrow>
              (let out2 = (if truthy out1 then the out1 else cwd)
               in Inr (cwd, abspath E cwd out2)))"

text \<open>Lines 179 to 183, and \<^verbatim>\<open>starting_text[:-67]\<close> of lines 200 and 203.\<close>

definition legend :: string where
  "legend = ''     file     |     modified     |'' @ ''     created     |     accessed'' @ nl"

definition starting_text :: "env \<Rightarrow> finder \<Rightarrow> string" where
  "starting_text E self =
     ''script started at: '' @ str_datetime E (now_run E) @ nl @
     ''start date: '' @ str_datetime E (self_start_date self) @ nl @
     ''end date: '' @ str_datetime E (self_end_date self) @ nl @
     legend"

definition drop_last_67 :: "string \<Rightarrow> string" where
  "drop_last_67 t = take (length t - 67) t"

text \<open>Lines 184 to 189, 198 to 203 and 204 to 209: the header starts a file that is not
  there and is appended after three line feeds to one that is.\<close>

definition write_header :: "fsys \<Rightarrow> string \<Rightarrow> string \<Rightarrow> fsys" where
  "write_header fs p header =
     (if fs p = None then write_file fs p header
      else append_file fs p (nl @ nl @ nl @ header))"

text \<open>
  \<^verbatim>\<open>find_files\<close>, lines 167 to 213. The result is the finder with its two reassigned
  attributes and the two values the final \<^verbatim>\<open>print\<close> calls show, or the exception;
  and the file system as the run left it.
\<close>

definition find_files ::
  "env \<Rightarrow> finder \<Rightarrow> fsys \<Rightarrow> (py_error + finder \<times> nat \<times> string) \<times> fsys" where
  "find_files E self fs =
     (case resolve_dirs E self of
        Inl e \<Rightarrow> (Inl e, fs)
      | Inr (cwd, out) \<Rightarrow>
          (let self1 = self\<lparr>self_root := Some cwd, self_output_info_to := Some out\<rparr>;
               write_table = path_join out ''founded_table.txt'';
               fs1 = write_header fs write_table (starting_text E self1)
           in case walker E self1 write_table fs1 of
                (Inl e, fs2) \<Rightarrow> (Inl e, fs2)
              | (Inr (founded, flist), fs2) \<Rightarrow>
                  if self_sort_info self1
                  then (case flist of
                          None \<Rightarrow> (Inl AttributeError, fs2)
                        | Some l \<Rightarrow>
                            (let write_list_sorted = path_join out ''founded_list_sorted.txt'';
                                 write_table_sorted = path_join out ''founded_table_sorted.txt'';
                                 fs3 = write_header fs2 write_list_sorted
                                         (drop_last_67 (starting_text E self1) @ nl @ nl);
                                 fs4 = write_header fs3 write_table_sorted (starting_text E self1);
                                 fs5 = sorter E write_list_sorted write_table_sorted l fs4
                             in (Inr (self1, founded, out), fs5)))
                  else (Inr (self1, founded, out), fs2)))"

text \<open>The use the class documents: construct the finder, then call \<^verbatim>\<open>find_files\<close>.\<close>

definition run ::
  "env \<Rightarrow> string option \<Rightarrow> string option \<Rightarrow> string option \<Rightarrow> bool \<Rightarrow> string option \<Rightarrow>
   string list option \<Rightarrow> bool \<Rightarrow> fsys \<Rightarrow> (py_error + finder \<times> nat \<times> string) \<times> fsys" where
  "run E root' start_date end_date include_time output_info_to extensions sort_info fs =
     (case init E root' start_date end_date include_time output_info_to extensions sort_info of
        Inl e \<Rightarrow> (Inl e, fs)
      | Inr self \<Rightarrow> find_files E self fs)"

section \<open>What a walk reports\<close>

text \<open>
  Auxiliary notions for the statements and the proofs. \<open>append_lines\<close> is a sequence of
  appends to one file; \<open>add_matches\<close> is the effect on the loop state of reporting the
  tuples \<open>ms\<close> in order.

  The matches of a walk, as the specification words them: \<open>reported\<close> lists the tuple
  of one name of a directory when the file exists at its inspection, its lower-cased
  extension is in the filter \<open>exts\<close> (an empty filter accepts every extension) and its
  modification, creation or access time lies strictly between the bounds \<open>sd\<close> and
  \<open>ed\<close>, and nothing otherwise; \<open>reported_walk\<close> collects these tuples over the triples
  of the walk, in the order of the walk.
\<close>

definition append_lines :: "fsys \<Rightarrow> string \<Rightarrow> string list \<Rightarrow> fsys" where
  "append_lines fs p ts = foldl (\<lambda>f t. append_file f p t) fs ts"

definition add_matches :: "env \<Rightarrow> finder \<Rightarrow> string \<Rightarrow> match list \<Rightarrow> walk_state \<Rightarrow> walk_state" where
  "add_matches E self wfile ms s =
     \<lparr>ws_founded = ws_founded s + length ms,
      ws_list = ws_list s @ (if self_sort_info self then ms else []),
      ws_fsys = append_lines (ws_fsys s) wfile (map (walker_line E) ms)\<rparr>"

definition reported :: "env \<Rightarrow> string set \<Rightarrow> rat \<Rightarrow> rat \<Rightarrow> string \<Rightarrow> string \<Rightarrow> match list" where
  "reported E exts sd ed root' file =
     (let p = path_join root' file in
      case os_stat E p of
        None \<Rightarrow> []
      | Some st \<Rightarrow>
          if (exts = {} \<or> lower (snd (splitext p)) \<in> exts)
             \<and> ((sd < st_mtime st \<and> st_mtime st < ed)
                \<or> (sd < st_ctime st \<and> st_ctime st < ed)
                \<or> (sd < st_atime st \<and> st_atime st < ed))
          then [(p, st_mtime st, st_ctime st, st_atime st)] else [])"

definition reported_walk ::
  "env \<Rightarrow> string set \<Rightarrow> rat \<Rightarrow> rat \<Rightarrow> (string \<times> string list \<times> string list) list \<Rightarrow> match list" where
  "reported_walk E exts sd ed walk =
     concat (map (\<lambda>(root', dirs, files). concat (map (reported E exts sd ed root') files)) walk)"

text \<open>The content of a file, empty when the file is not there.\<close>

definition content :: "fsys \<Rightarrow> string \<Rightarrow> string" where
  "content fs p = (case fs p of None \<Rightarrow> [] | Some t \<Rightarrow> t)"

section \<open>A concrete directory tree\<close>

text \<open>
  An example environment on which the theorems below are instantiated. The clock reads
  2022-01-14 10:30:15.000250 (day 738169); \<open>demo_timestamp\<close> counts days and has no
  value on the first and on the last day of the calendar; \<open>demo_strptime\<close> reads two
  dates, 2022-01-10 and 0001-01-01, and rejects every other string; the tree
  under \<^verbatim>\<open>/home/user\<close> holds five names, one of them already deleted when it is
  inspected, and a subdirectory with one file.
\<close>

definition demo_now :: datetime where
  "demo_now = \<lparr>toordinal = 738169, hour = 10, minute = 30, second = 15, microsecond = 250\<rparr>"

definition demo_timestamp :: "datetime \<Rightarrow> rat option" where
  "demo_timestamp d =
     (if toordinal d \<le> 1 \<or> 3652059 \<le> toordinal d then None
      else Some (of_int (toordinal d)
                 + of_nat (hour d * 3600 + minute d * 60 + second d) / 86400
                 + of_nat (microsecond d) / 86400000000))"

definition demo_strptime :: "string \<Rightarrow> string \<Rightarrow> datetime option" where
  "demo_strptime s fmt =
     (if s = ''2022-01-10'' \<and> fmt = ''%Y-%m-%d''
      then Some \<lparr>toordinal = 738165, hour = 0, minute = 0, second = 0, microsecond = 0\<rparr>
      else if s = ''0001-01-01'' \<and> fmt = ''%Y-%m-%d''
      then Some \<lparr>toordinal = 1, hour = 0, minute = 0, second = 0, microsecond = 0\<rparr>
      else None)"

definition demo_ctime :: "rat \<Rightarrow> string" where
  "demo_ctime t =
     (if t = 1476331 / 2 then ''Mon Jan 10 12:00:00 2022''
      else if t = 738167 then ''Wed Jan 12 00:00:00 2022''
      else if t = 738162 then ''Fri Jan  7 00:00:00 2022''
      else ''Sat Nov  6 00:00:00 2021'')"

definition demo_stat :: "string \<Rightarrow> stat option" where
  "demo_stat p =
     (if p = ''/home/user/notes.md''
      then Some \<lparr>st_mtime = 1476331 / 2, st_ctime = 738100, st_atime = 738100\<rparr>
      else if p = ''/home/user/Makefile''
      then Some \<lparr>st_mtime = 738167, st_ctime = 738167, st_atime = 738167\<rparr>
      else if p = ''/home/user/old.txt''
      then Some \<lparr>st_mtime = 738100, st_ctime = 738100, st_atime = 738100\<rparr>
      else if p = ''/home/user/edge.md''
      then Some \<lparr>st_mtime = 738162, st_ctime = 738100, st_atime = 738100\<rparr>
      else if p = ''/home/user/sub/b.MD''
      then Some \<lparr>st_mtime = 738100, st_ctime = 738167, st_atime = 738100\<rparr>
      else None)"

definition demo_env :: env where
  "demo_env =
     \<lparr>strptime = demo_strptime,
      now_start = demo_now,
      now_end = demo_now,
      now_run = demo_now,
      timestamp = demo_timestamp,
      str_datetime = (\<lambda>d. if d = demo_now then ''2022-01-14 10:30:15.000250''
                           else ''2022-01-07 00:00:00''),
      time_ctime = demo_ctime,
      getcwd = ''/home/user'',
      chdir = (\<lambda>p. Some p),
      abspath = (\<lambda>cwd p. path_join cwd p),
      os_walk = (\<lambda>r. [(r, [''sub''],
                          [''notes.md'', ''Makefile'', ''old.txt'', ''edge.md'', ''gone.md'']),
                       (path_join r ''sub'', [], [''b.MD''])]),
      os_stat = demo_stat\<rparr>"

definition demo_finder :: finder where
  "demo_finder =
     \<lparr>self_root = Some ''/home/user'',
      self_output_info_to = None,
      self_start_date =
        \<lparr>toordinal = 738162, hour = 0, minute = 0, second = 0, microsecond = 0\<rparr>,
      self_end_date = demo_now,
      self_sort_info = True,
      self_extensions = Some {''.md''}\<rparr>"

section \<open>Lemmas on the loops of the traversal\<close>

lemma add_matches_Nil: "add_matches E self wfile [] s = s"
  by (simp add: add_matches_def append_lines_def)

lemma add_matches_append:
  "add_matches E self wfile (xs @ ys) s
     = add_matches E self wfile ys (add_matches E self wfile xs s)"
  by (simp add: add_matches_def append_lines_def)

lemma walker_file_some:
  "self_extensions self = Some exts \<Longrightarrow>
   walker_file E self wfile sd ed root' file s
     = Inr (add_matches E self wfile (reported E exts sd ed root' file) s)"
  by (auto simp: walker_file_def reported_def Let_def add_matches_def append_lines_def
           split: option.splits)

lemma walker_file_any:
  "walker_file E self wfile sd ed root' file s = Inr s' \<Longrightarrow>
   \<exists>ms. s' = add_matches E self wfile ms s"
proof (cases "self_extensions self")
  case None
  assume "walker_file E self wfile sd ed root' file s = Inr s'"
  with None have "s' = s"
    by (auto simp: walker_file_def Let_def split: option.splits)
  then show ?thesis using add_matches_Nil by metis
next
  case (Some exts)
  assume "walker_file E self wfile sd ed root' file s = Inr s'"
  with Some show ?thesis by (auto simp: walker_file_some)
qed

lemma walker_files_some:
  "self_extensions self = Some exts \<Longrightarrow>
   walker_files E self wfile sd ed root' files s
     = (None, add_matches E self wfile (concat (map (reported E exts sd ed root') files)) s)"
proof (induction files arbitrary: s)
  case Nil
  then show ?case by (simp add: add_matches_Nil)
next
  case (Cons f fs)
  then show ?case by (simp add: walker_file_some add_matches_append)
qed

lemma walker_files_any:
  "walker_files E self wfile sd ed root' files s = (r, s') \<Longrightarrow>
   \<exists>ms. s' = add_matches E self wfile ms s"
proof (induction files arbitrary: s)
  case Nil
  then show ?case using add_matches_Nil by (metis walker_files.simps(1) prod.inject)
next
  case (Cons f fs)
  show ?case
  proof (cases "walker_file E self wfile sd ed root' f s")
    case (Inl e)
    with Cons.prems have "s' = s" by simp
    then show ?thesis using add_matches_Nil by metis
  next
    case (Inr s1)
    with Cons.prems have "walker_files E self wfile sd ed root' fs s1 = (r, s')" by simp
    from Cons.IH[OF this] obtain ms2 where a: "s' = add_matches E self wfile ms2 s1" by blast
    from walker_file_any[OF Inr] obtain ms1 where b: "s1 = add_matches E self wfile ms1 s" by blast
    from a b have "s' = add_matches E self wfile (ms1 @ ms2) s" by (simp add: add_matches_append)
    then show ?thesis by blast
  qed
qed

lemma reported_walk_Cons:
  "reported_walk E exts sd ed ((root', dirs, files) # rest)
     = concat (map (reported E exts sd ed root') files) @ reported_walk E exts sd ed rest"
  by (simp add: reported_walk_def)

lemma walker_dirs_some:
  "self_extensions self = Some exts \<Longrightarrow>
   walker_dirs E self wfile sd ed walk s
     = (None, add_matches E self wfile (reported_walk E exts sd ed walk) s)"
proof (induction walk arbitrary: s)
  case Nil
  then show ?case by (simp add: add_matches_Nil reported_walk_def)
next
  case (Cons t rest)
  obtain root' dirs files where t: "t = (root', dirs, files)" by (cases t) auto
  show ?case
    unfolding t using Cons
    by (simp add: walker_files_some reported_walk_Cons add_matches_append)
qed

lemma walker_dirs_any:
  "walker_dirs E self wfile sd ed walk s = (r, s') \<Longrightarrow>
   \<exists>ms. s' = add_matches E self wfile ms s"
proof (induction walk arbitrary: s)
  case Nil
  then show ?case using add_matches_Nil by (metis walker_dirs.simps(1) prod.inject)
next
  case (Cons t rest)
  obtain root' dirs files where t: "t = (root', dirs, files)" by (cases t) auto
  obtain r1 s1 where w: "walker_files E self wfile sd ed root' files s = (r1, s1)"
    by (cases "walker_files E self wfile sd ed root' files s") auto
  from walker_files_any[OF w] obtain ms1 where b: "s1 = add_matches E self wfile ms1 s" by blast
  show ?case
  proof (cases r1)
    case (Some e)
    with Cons.prems t w have "s' = s1" by simp
    with b show ?thesis by blast
  next
    case None
    with Cons.prems t w have "walker_dirs E self wfile sd ed rest s1 = (r, s')" by simp
    from Cons.IH[OF this] obtain ms2 where a: "s' = add_matches E self wfile ms2 s1" by blast
    from a b have "s' = add_matches E self wfile (ms1 @ ms2) s" by (simp add: add_matches_append)
    then show ?thesis by blast
  qed
qed

section \<open>Lemmas on the normalisation of extensions\<close>

lemma lower_char_dot: "lower_char c = CHR ''.'' \<longleftrightarrow> c = CHR ''.''"
proof
  assume a: "lower_char c = CHR ''.''"
  show "c = CHR ''.''"
  proof (cases "65 \<le> (of_char c :: nat) \<and> (of_char c :: nat) \<le> 90")
    case True
    then have "lower_char c = char_of ((of_char c :: nat) + 32)" by (simp add: lower_char_def)
    with a have "of_char (char_of ((of_char c :: nat) + 32)) = (of_char (CHR ''.'') :: nat)" by simp
    with True show ?thesis by (simp add: of_char_of)
  next
    case False
    with a show ?thesis by (simp add: lower_char_def)
  qed
next
  assume "c = CHR ''.''"
  then show "lower_char c = CHR ''.''" by (simp add: lower_char_def)
qed

lemma lower_char_idem: "lower_char (lower_char c) = lower_char c"
proof (cases "65 \<le> (of_char c :: nat) \<and> (of_char c :: nat) \<le> 90")
  case True
  then have v: "(of_char (char_of ((of_char c :: nat) + 32)) :: nat) = of_char c + 32"
    by (simp add: of_char_of)
  from True have l: "lower_char c = char_of ((of_char c :: nat) + 32)"
    by (simp add: lower_char_def)
  from True v have "\<not> (65 \<le> (of_char (char_of ((of_char c :: nat) + 32)) :: nat)
      \<and> (of_char (char_of ((of_char c :: nat) + 32)) :: nat) \<le> 90)" by simp
  then have "lower_char (char_of ((of_char c :: nat) + 32)) = char_of ((of_char c :: nat) + 32)"
    unfolding lower_char_def by (rule if_not_P)
  with l show ?thesis by simp
next
  case False
  then have "lower_char c = c" unfolding lower_char_def by (rule if_not_P)
  then show ?thesis by simp
qed

lemma lower_idem: "lower (lower s) = lower s"
  by (simp add: lower_def lower_char_idem)

lemma startswith_dot: "startswith s ''.'' \<longleftrightarrow> (\<exists>t. s = CHR ''.'' # t)"
  by (cases s) (auto simp: startswith_def)

lemma startswith_dot_lower: "startswith (lower s) ''.'' \<longleftrightarrow> startswith s ''.''"
  by (cases s) (auto simp: startswith_def lower_def lower_char_dot)

lemma norm_ext_dotted: "startswith (norm_ext ext) ''.''"
  by (cases ext) (auto simp: norm_ext_def startswith_def lower_def lower_char_dot)

lemma norm_ext_lower: "lower (norm_ext ext) = norm_ext ext"
  by (simp add: norm_ext_def lower_def lower_char_idem lower_char_def)

lemma norm_ext_nonempty: "norm_ext ext \<noteq> []"
  using norm_ext_dotted[of ext] by (auto simp: startswith_def)

lemma norm_ext_add_dot: "\<not> startswith s ''.'' \<Longrightarrow> norm_ext (''.'' @ s) = norm_ext s"
  by (simp add: norm_ext_def startswith_def lower_def lower_char_def)

lemma norm_ext_case: "lower t = lower s \<Longrightarrow> norm_ext t = norm_ext s"
  using startswith_dot_lower[of t] startswith_dot_lower[of s]
  by (simp add: norm_ext_def)

lemma init_extensions:
  "init E r sd ed it out exts srt = Inr self \<Longrightarrow>
   self_extensions self =
     (case exts of None \<Rightarrow> None
      | Some xs \<Rightarrow> if xs \<noteq> [] then Some (set (map norm_ext xs)) else None)"
  by (auto simp: init_def Let_def split: sum.splits if_splits option.splits)

lemma init_same_extensions:
  assumes m: "map norm_ext xs1 = map norm_ext xs2"
  shows "init E r sd ed it out (Some xs1) srt = init E r sd ed it out (Some xs2) srt"
proof -
  have "length (map norm_ext xs1) = length (map norm_ext xs2)" using m by simp
  then have e: "(xs1 = []) = (xs2 = [])" by auto
  have "(if xs1 \<noteq> [] then Some (set (map norm_ext xs1)) else None)
      = (if xs2 \<noteq> [] then Some (set (map norm_ext xs2)) else None)"
    by (simp only: m e)
  then show ?thesis by (simp only: init_def option.case)
qed

section \<open>Claims on the constructor\<close>

text \<open>
  Claim C9, as the code has it. An extension \<open>s\<close> and any letter-case variant \<open>t\<close> of it
  (one with the same lower-case form), supplied at the same place of the collection,
  construct the same finder; so does \<open>s\<close> with a dot in front when \<open>s\<close> itself does not
  begin with a dot; the stored filter is a set whose entries all begin with a dot and
  are lower case. The claim as written also promises the dot for an extension that
  already begins with one, where one more dot in front gives a different filter.
\<close>

theorem C9_extension_normalisation:
  assumes "lower t = lower s"
    and "init E r sd ed it out (Some (xs @ s # ys)) srt = Inr a"
  shows "(\<not> startswith s ''.'' \<longrightarrow>
            init E r sd ed it out (Some (xs @ (''.'' @ s) # ys)) srt = Inr a)
       \<and> init E r sd ed it out (Some (xs @ t # ys)) srt = Inr a
       \<and> (\<exists>S. self_extensions a = Some S \<and> (\<forall>e\<in>S. startswith e ''.'' \<and> lower e = e))"
proof (intro conjI impI)
  assume n: "\<not> startswith s ''.''"
  have d: "norm_ext (''.'' @ s) = norm_ext s"
    using n by (rule norm_ext_add_dot)
  have "init E r sd ed it out (Some (xs @ (''.'' @ s) # ys)) srt
      = init E r sd ed it out (Some (xs @ s # ys)) srt"
    by (rule init_same_extensions) (simp_all add: d del: append.simps)
  with assms(2) show "init E r sd ed it out (Some (xs @ (''.'' @ s) # ys)) srt = Inr a"
    by simp
next
  have c: "norm_ext t = norm_ext s"
    using assms(1) by (rule norm_ext_case)
  have "init E r sd ed it out (Some (xs @ t # ys)) srt
      = init E r sd ed it out (Some (xs @ s # ys)) srt"
    by (rule init_same_extensions) (simp_all add: c)
  with assms(2) show "init E r sd ed it out (Some (xs @ t # ys)) srt = Inr a"
    by simp
next
  have 1: "self_extensions a = Some (set (map norm_ext (xs @ s # ys)))"
    using init_extensions[OF assms(2)] by simp
  have 2: "\<forall>e\<in>set (map norm_ext (xs @ s # ys)). startswith e ''.'' \<and> lower e = e"
    using norm_ext_dotted norm_ext_lower by auto
  from 1 2 show "\<exists>S. self_extensions a = Some S \<and> (\<forall>e\<in>S. startswith e ''.'' \<and> lower e = e)"
    by blast
qed

lemma demo_init_txt:
  "init demo_env None None None False None (Some [''txt'']) False =
     Inr \<lparr>self_root = None, self_output_info_to = None,
          self_start_date = \<lparr>toordinal = 738162, hour = 0, minute = 0, second = 0, microsecond = 0\<rparr>,
          self_end_date = \<lparr>toordinal = 738169, hour = 23, minute = 59, second = 59, microsecond = 250\<rparr>,
          self_sort_info = False, self_extensions = Some {''.txt''}\<rparr>"
  by (simp add: init_def demo_env_def demo_now_def truthy_def minus_days_def norm_ext_def
        startswith_def lower_def lower_char_def)

text \<open>The instance \<^verbatim>\<open>"txt"\<close>, \<^verbatim>\<open>".txt"\<close>, \<^verbatim>\<open>"TXT"\<close> on the example environment.\<close>

theorem C9_witness:
  "\<not> startswith ''txt'' ''.'' \<and> lower ''TXT'' = lower ''txt''
   \<and> init demo_env None None None False None (Some [''.txt'']) False
       = init demo_env None None None False None (Some [''txt'']) False
   \<and> init demo_env None None None False None (Some [''TXT'']) False
       = init demo_env None None None False None (Some [''txt'']) False
   \<and> (\<exists>a. init demo_env None None None False None (Some [''txt'']) False = Inr a
          \<and> self_extensions a = Some {''.txt''})"
proof -
  have h1: "\<not> startswith ''txt'' ''.''" by (simp add: startswith_def)
  have h2: "lower ''TXT'' = lower ''txt''" by code_simp
  note t = C9_extension_normalisation[OF h2, of demo_env None None None False None "[]" "[]" False,
      simplified, OF demo_init_txt]
  show ?thesis using h1 h2 t demo_init_txt by simp
qed

text \<open>Claim C9 as written fails for the supplied string \<^verbatim>\<open>".txt"\<close>: with a dot in
  front the stored filter is \<^verbatim>\<open>{"..txt"}\<close>, not \<^verbatim>\<open>{".txt"}\<close>.\<close>

theorem C9_counterexample:
  "\<exists>a b. init demo_env None None None False None (Some [''.txt'']) False = Inr a
       \<and> init demo_env None None None False None (Some [''.'' @ ''.txt'']) False = Inr b
       \<and> self_extensions b \<noteq> self_extensions a"
  by (simp add: init_def demo_env_def demo_now_def truthy_def minus_days_def norm_ext_def
        startswith_def lower_def lower_char_def)

text \<open>
  Claim C10. When the constructor was given a collection of extensions that is not
  empty, the stored filter is a non-empty set of non-empty strings that begin with a
  dot, and the loop body leaves the state as it was (nothing counted, nothing
  accumulated, nothing written) for every name whose \<^verbatim>\<open>splitext\<close> extension is the
  empty string, whatever its timestamps and the window are.
\<close>

theorem C10_no_extension_never_matched:
  assumes "init E r sd ed it out (Some exts) srt = Inr self"
    and "exts \<noteq> []"
    and "snd (splitext (path_join root' file)) = []"
  shows "(\<exists>S. self_extensions self = Some S \<and> S \<noteq> {}
            \<and> (\<forall>e\<in>S. e \<noteq> [] \<and> startswith e ''.''))
       \<and> walker_file E' self wfile start_date end_date root' file s = Inr s"
proof -
  have S: "self_extensions self = Some (set (map norm_ext exts))"
    using init_extensions[OF assms(1)] assms(2) by simp
  have ne: "set (map norm_ext exts) \<noteq> {}" using assms(2) by simp
  have el: "\<forall>e\<in>set (map norm_ext exts). e \<noteq> [] \<and> startswith e ''.''"
    using norm_ext_nonempty norm_ext_dotted by auto
  then have notin: "[] \<notin> set (map norm_ext exts)" by blast
  have "walker_file E' self wfile start_date end_date root' file s = Inr s"
    using S ne notin assms(3)
    by (simp add: walker_file_def Let_def lower_def split: option.splits)
  with S ne el show ?thesis by blast
qed

lemma demo_splitext_Makefile: "splitext ''/home/user/Makefile'' = (''/home/user/Makefile'', [])"
  by (simp add: splitext_def rfind_def)

text \<open>The instance: the filter \<^verbatim>\<open>["txt"]\<close> and the file \<^verbatim>\<open>Makefile\<close>, whose three
  timestamps are inside the window.\<close>

theorem C10_witness:
  "init demo_env None None None False None (Some [''txt'']) False
     = Inr \<lparr>self_root = None, self_output_info_to = None,
          self_start_date = \<lparr>toordinal = 738162, hour = 0, minute = 0, second = 0, microsecond = 0\<rparr>,
          self_end_date = \<lparr>toordinal = 738169, hour = 23, minute = 59, second = 59, microsecond = 250\<rparr>,
          self_sort_info = False, self_extensions = Some {''.txt''}\<rparr>
   \<and> [''txt''] \<noteq> []
   \<and> snd (splitext (path_join ''/home/user'' ''Makefile'')) = []
   \<and> os_stat demo_env (path_join ''/home/user'' ''Makefile'')
        = Some \<lparr>st_mtime = 738167, st_ctime = 738167, st_atime = 738167\<rparr>
   \<and> walker_file demo_env
        \<lparr>self_root = None, self_output_info_to = None,
          self_start_date = \<lparr>toordinal = 738162, hour = 0, minute = 0, second = 0, microsecond = 0\<rparr>,
          self_end_date = \<lparr>toordinal = 738169, hour = 23, minute = 59, second = 59, microsecond = 250\<rparr>,
          self_sort_info = False, self_extensions = Some {''.txt''}\<rparr>
        ''/out/founded_table.txt'' 738162 738170 ''/home/user'' ''Makefile''
        \<lparr>ws_founded = 0, ws_list = [], ws_fsys = Map.empty\<rparr>
      = Inr \<lparr>ws_founded = 0, ws_list = [], ws_fsys = Map.empty\<rparr>"
proof -
  have p: "path_join ''/home/user'' ''Makefile'' = ''/home/user/Makefile''"
    by (simp add: path_join_def startswith_def endswith_def)
  have h3: "snd (splitext (path_join ''/home/user'' ''Makefile'')) = []"
    by (simp add: p demo_splitext_Makefile)
  have h2: "[''txt''] \<noteq> []" by simp
  have st: "os_stat demo_env (path_join ''/home/user'' ''Makefile'')
        = Some \<lparr>st_mtime = 738167, st_ctime = 738167, st_atime = 738167\<rparr>"
    by (simp add: p demo_env_def demo_stat_def)
  show ?thesis
    using C10_no_extension_never_matched[OF demo_init_txt h2 h3] demo_init_txt h3 st by simp
qed

text \<open>
  Claim C4, as the code has it. When both bounds are omitted (\<^verbatim>\<open>None\<close> or the empty
  string) and the clock is past the first week of year 1, the constructor returns a
  finder. Whenever it returns one: an omitted start date gives the lower bound
  \<^verbatim>\<open>now\<close> minus 7 days at 00:00:00.000000; an omitted end date gives the upper bound
  \<^verbatim>\<open>now\<close> when \<^verbatim>\<open>include_time\<close> is set, and \<^verbatim>\<open>now\<close> with its time of day replaced by
  23:59:59 (microseconds kept) when it is not, since lines 102 to 104 pad the end date
  whatever its origin.
\<close>

theorem C4_default_bounds:
  "(\<not> truthy start_date \<and> \<not> truthy end_date \<and> 7 < toordinal (now_start E) \<longrightarrow>
      (\<exists>self. init E r start_date end_date include_time out exts srt = Inr self))
   \<and> (init E r start_date end_date include_time out exts srt = Inr self \<longrightarrow>
        (\<not> truthy start_date \<longrightarrow>
           self_start_date self =
             \<lparr>toordinal = toordinal (now_start E) - 7,
              hour = 0, minute = 0, second = 0, microsecond = 0\<rparr>)
        \<and> (\<not> truthy end_date \<and> include_time \<longrightarrow> self_end_date self = now_end E)
        \<and> (\<not> truthy end_date \<and> \<not> include_time \<longrightarrow>
             self_end_date self = (now_end E)\<lparr>hour := 23, minute := 59, second := 59\<rparr>))"
proof (intro conjI impI)
  assume "\<not> truthy start_date \<and> \<not> truthy end_date \<and> 7 < toordinal (now_start E)"
  then show "\<exists>self. init E r start_date end_date include_time out exts srt = Inr self"
    by (simp add: init_def minus_days_def Let_def)
next
  assume i: "init E r start_date end_date include_time out exts srt = Inr self"
    and s: "\<not> truthy start_date"
  then show "self_start_date self =
      \<lparr>toordinal = toordinal (now_start E) - 7, hour = 0, minute = 0, second = 0, microsecond = 0\<rparr>"
    by (auto simp: init_def minus_days_def Let_def split: sum.splits if_splits option.splits)
next
  assume i: "init E r start_date end_date include_time out exts srt = Inr self"
    and s: "\<not> truthy end_date \<and> include_time"
  then show "self_end_date self = now_end E"
    by (auto simp: init_def Let_def split: sum.splits if_splits option.splits)
next
  assume i: "init E r start_date end_date include_time out exts srt = Inr self"
    and s: "\<not> truthy end_date \<and> \<not> include_time"
  then show "self_end_date self = (now_end E)\<lparr>hour := 23, minute := 59, second := 59\<rparr>"
    by (auto simp: init_def Let_def split: sum.splits if_splits option.splits)
qed

text \<open>Claim C4 as written fails with the default \<^verbatim>\<open>include_time=False\<close>: at 10:30:15
  the upper bound of an omitted end date is 23:59:59 of the day, not the current time.\<close>

theorem C4_counterexample:
  "\<exists>self. init demo_env None None None False None None False = Inr self
      \<and> self_end_date self \<noteq> now_end demo_env
      \<and> now_end demo_env = \<lparr>toordinal = 738169, hour = 10, minute = 30, second = 15, microsecond = 250\<rparr>
      \<and> self_end_date self = \<lparr>toordinal = 738169, hour = 23, minute = 59, second = 59, microsecond = 250\<rparr>"
  by (simp add: init_def demo_env_def demo_now_def truthy_def minus_days_def)

text \<open>Both cases of the amended claim on the example clock.\<close>

theorem C4_witness:
  "\<not> truthy None \<and> 7 < toordinal (now_start demo_env)
   \<and> (\<exists>self. init demo_env None None None True None None False = Inr self
         \<and> self_start_date self
             = \<lparr>toordinal = 738162, hour = 0, minute = 0, second = 0, microsecond = 0\<rparr>
         \<and> self_end_date self
             = \<lparr>toordinal = 738169, hour = 10, minute = 30, second = 15, microsecond = 250\<rparr>)
   \<and> (\<exists>self. init demo_env None None None False None None False = Inr self
         \<and> self_start_date self
             = \<lparr>toordinal = 738162, hour = 0, minute = 0, second = 0, microsecond = 0\<rparr>
         \<and> self_end_date self
             = \<lparr>toordinal = 738169, hour = 23, minute = 59, second = 59, microsecond = 250\<rparr>)"
proof -
  have h1: "\<not> truthy None" by (simp add: truthy_def)
  have h2: "7 < toordinal (now_start demo_env)" by (simp add: demo_env_def demo_now_def)
  have n: "now_start demo_env = demo_now" "now_end demo_env = demo_now"
    by (simp_all add: demo_env_def)
  from C4_default_bounds[of None None demo_env None True None None False] h1 h2
  obtain a where a: "init demo_env None None None True None None False = Inr a" by blast
  from C4_default_bounds[of None None demo_env None False None None False] h1 h2
  obtain b where b: "init demo_env None None None False None None False = Inr b" by blast
  have "self_start_date a = \<lparr>toordinal = 738162, hour = 0, minute = 0, second = 0, microsecond = 0\<rparr>
      \<and> self_end_date a = \<lparr>toordinal = 738169, hour = 10, minute = 30, second = 15, microsecond = 250\<rparr>"
    using C4_default_bounds[of None None demo_env None True None None False a] a h1
    by (simp add: n demo_now_def)
  moreover have "self_start_date b = \<lparr>toordinal = 738162, hour = 0, minute = 0, second = 0, microsecond = 0\<rparr>
      \<and> self_end_date b = \<lparr>toordinal = 738169, hour = 23, minute = 59, second = 59, microsecond = 250\<rparr>"
    using C4_default_bounds[of None None demo_env None False None None False b] b h1
    by (simp add: n demo_now_def)
  ultimately show ?thesis using h1 h2 a b by simp
qed

section \<open>Lemmas on the whole traversal\<close>

lemma walker_file_no_filter:
  "self_extensions self = None \<Longrightarrow> os_stat E (path_join root' file) = Some st \<Longrightarrow>
   walker_file E self wfile sd ed root' file s = Inl AttributeError"
  by (simp add: walker_file_def Let_def)

lemma walker_some:
  assumes "self_root self = Some r"
    and "timestamp E (self_start_date self) = Some sd"
    and "timestamp E (self_end_date self) = Some ed"
    and "self_extensions self = Some exts"
  shows "walker E self wfile fs =
     (Inr (length (reported_walk E exts sd ed (os_walk E r)),
           if self_sort_info self
           then Some (reported_walk E exts sd ed (os_walk E r))
           else None),
      append_lines fs wfile (map (walker_line E) (reported_walk E exts sd ed (os_walk E r))))"
  using assms(1,2,3)
  by (simp add: walker_def walker_dirs_some[OF assms(4)] add_matches_def)

lemma walker_any:
  assumes "walker E self wfile fs = (res, fs')"
  shows "\<exists>ms. fs' = append_lines fs wfile (map (walker_line E) ms)
           \<and> (\<forall>n l. res = Inr (n, l) \<longrightarrow>
                 n = length ms \<and> l = (if self_sort_info self then Some ms else None))"
proof -
  have unchanged: "fs' = fs \<Longrightarrow> (\<exists>e. res = Inl e) \<Longrightarrow> ?thesis"
  proof -
    assume "fs' = fs" and "\<exists>e. res = Inl e"
    then have "fs' = append_lines fs wfile (map (walker_line E) [])
        \<and> (\<forall>n l. res = Inr (n, l) \<longrightarrow>
               n = length ([]::match list) \<and> l = (if self_sort_info self then Some [] else None))"
      by (auto simp: append_lines_def)
    then show ?thesis by blast
  qed
  show ?thesis
  proof (cases "self_root self")
    case None
    with assms have "fs' = fs" "\<exists>e. res = Inl e" by (auto simp: walker_def)
    then show ?thesis by (rule unchanged)
  next
    case (Some r)
    show ?thesis
    proof (cases "timestamp E (self_start_date self)")
      case None
      with assms Some have "fs' = fs" "\<exists>e. res = Inl e" by (auto simp: walker_def)
      then show ?thesis by (rule unchanged)
    next
      case sd: (Some sd)
      show ?thesis
      proof (cases "timestamp E (self_end_date self)")
        case None
        with assms Some sd have "fs' = fs" "\<exists>e. res = Inl e" by (auto simp: walker_def)
        then show ?thesis by (rule unchanged)
      next
        case ed: (Some ed)
        obtain e s where w: "walker_dirs E self wfile sd ed (os_walk E r)
            \<lparr>ws_founded = 0, ws_list = [], ws_fsys = fs\<rparr> = (e, s)"
          by (cases "walker_dirs E self wfile sd ed (os_walk E r)
            \<lparr>ws_founded = 0, ws_list = [], ws_fsys = fs\<rparr>") auto
        from walker_dirs_any[OF w] obtain ms where
          s: "s = add_matches E self wfile ms \<lparr>ws_founded = 0, ws_list = [], ws_fsys = fs\<rparr>"
          by blast
        have "fs' = append_lines fs wfile (map (walker_line E) ms)
            \<and> (\<forall>n l. res = Inr (n, l) \<longrightarrow>
                   n = length ms \<and> l = (if self_sort_info self then Some ms else None))"
          using assms Some sd ed w s
          by (cases e) (auto simp: walker_def add_matches_def)
        then show ?thesis by blast
      qed
    qed
  qed
qed



lemma reported_walk_mem:
  "(p, m, c, a) \<in> set (reported_walk E exts sd ed walk) \<longleftrightarrow>
     (\<exists>root' dirs files file.
         (root', dirs, files) \<in> set walk \<and> file \<in> set files \<and> p = path_join root' file
       \<and> os_stat E p = Some \<lparr>st_mtime = m, st_ctime = c, st_atime = a\<rparr>
       \<and> (exts = {} \<or> lower (snd (splitext p)) \<in> exts)
       \<and> (sd < m \<and> m < ed \<or> sd < c \<and> c < ed \<or> sd < a \<and> a < ed))"
  (is "?L = ?R")
proof
  assume ?L
  then obtain root' dirs files fname where
    1: "(root', dirs, files) \<in> set walk" and 2: "fname \<in> set files"
    and 3: "(p, m, c, a) \<in> set (reported E exts sd ed root' fname)"
    by (auto simp: reported_walk_def)
  have "os_stat E (path_join root' fname) \<noteq> None"
  proof
    assume "os_stat E (path_join root' fname) = None"
    then have "reported E exts sd ed root' fname = []" by (simp add: reported_def)
    with 3 show False by simp
  qed
  then obtain st where st: "os_stat E (path_join root' fname) = Some st" by auto
  from 3 st have 4: "p = path_join root' fname" "m = st_mtime st" "c = st_ctime st" "a = st_atime st"
    "exts = {} \<or> lower (snd (splitext p)) \<in> exts"
    "sd < m \<and> m < ed \<or> sd < c \<and> c < ed \<or> sd < a \<and> a < ed"
    by (auto simp: reported_def Let_def split: if_splits)
  have eq: "st = \<lparr>st_mtime = m, st_ctime = c, st_atime = a\<rparr>"
    using 4(2,3,4) by (cases st) simp
  have "os_stat E p = Some \<lparr>st_mtime = m, st_ctime = c, st_atime = a\<rparr>"
    unfolding 4(1) eq[symmetric] by (rule st)
  with 1 2 4(1,5,6) show ?R by blast
next
  assume ?R
  then obtain root' dirs files fname where
    1: "(root', dirs, files) \<in> set walk" and 2: "fname \<in> set files"
    and 3: "p = path_join root' fname"
    and 4: "os_stat E p = Some \<lparr>st_mtime = m, st_ctime = c, st_atime = a\<rparr>"
    and 5: "exts = {} \<or> lower (snd (splitext p)) \<in> exts"
    and 6: "sd < m \<and> m < ed \<or> sd < c \<and> c < ed \<or> sd < a \<and> a < ed"
    by blast
  from 3 4 5 6 have "(p, m, c, a) \<in> set (reported E exts sd ed root' fname)"
    by (auto simp: reported_def Let_def)
  with 1 2 show ?L by (force simp: reported_walk_def)
qed

section \<open>The example tree, evaluated\<close>

lemma demo_lower:
  "lower ''.md'' = ''.md''" "lower ''.MD'' = ''.md''" "lower ''.txt'' = ''.txt''" "lower [] = []"
  by code_simp+

lemma demo_paths:
  "path_join ''/home/user'' ''notes.md'' = ''/home/user/notes.md''"
  "path_join ''/home/user'' ''Makefile'' = ''/home/user/Makefile''"
  "path_join ''/home/user'' ''old.txt'' = ''/home/user/old.txt''"
  "path_join ''/home/user'' ''edge.md'' = ''/home/user/edge.md''"
  "path_join ''/home/user'' ''gone.md'' = ''/home/user/gone.md''"
  "path_join ''/home/user'' ''sub'' = ''/home/user/sub''"
  "path_join ''/home/user/sub'' ''b.MD'' = ''/home/user/sub/b.MD''"
  by (simp_all add: path_join_def startswith_def endswith_def)

lemma demo_splitext:
  "splitext ''/home/user/notes.md'' = (''/home/user/notes'', ''.md'')"
  "splitext ''/home/user/Makefile'' = (''/home/user/Makefile'', [])"
  "splitext ''/home/user/old.txt'' = (''/home/user/old'', ''.txt'')"
  "splitext ''/home/user/edge.md'' = (''/home/user/edge'', ''.md'')"
  "splitext ''/home/user/sub/b.MD'' = (''/home/user/sub/b'', ''.MD'')"
  by (simp_all add: splitext_def rfind_def has_name_char.simps)

lemma demo_window:
  "timestamp demo_env (self_start_date demo_finder) = Some 738162"
  "timestamp demo_env (self_end_date demo_finder)
     = Some (738169 + 37815 / 86400 + 250 / 86400000000)"
  by (simp_all add: demo_env_def demo_finder_def demo_timestamp_def demo_now_def)

lemma demo_walk:
  "os_walk demo_env ''/home/user'' =
     [(''/home/user'', [''sub''], [''notes.md'', ''Makefile'', ''old.txt'', ''edge.md'', ''gone.md'']),
      (''/home/user/sub'', [], [''b.MD''])]"
  by (simp add: demo_env_def demo_paths)


lemma demo_reported_all:
  "reported_walk demo_env {} 738162 (738169 + 37815 / 86400 + 250 / 86400000000)
     (os_walk demo_env ''/home/user'')
     = [(''/home/user/notes.md'', 1476331 / 2, 738100, 738100),
        (''/home/user/Makefile'', 738167, 738167, 738167),
        (''/home/user/sub/b.MD'', 738100, 738167, 738100)]"
  by (simp add: demo_walk reported_walk_def reported_def demo_paths demo_splitext demo_lower
        demo_stat_def Let_def demo_env_def)

section \<open>Claims on the traversal\<close>

text \<open>
  With a root, two bounds that have timestamps and a stored extension filter, the
  traversal returns, and the tuples it reports are exactly those of the files of the walk
  that exist, pass the extension filter and have a modification, creation or access time
  strictly between the two bounds. A tuple whose three timestamps are each at or below
  the lower bound or at or above the upper bound is not among them.
\<close>

lemma walker_reports_window:
  assumes "self_root self = Some r"
    and "timestamp E (self_start_date self) = Some sd"
    and "timestamp E (self_end_date self) = Some ed"
    and "self_extensions self = Some exts"
  shows "\<exists>ms. walker E self wfile fs =
            (Inr (length ms, if self_sort_info self then Some ms else None),
             foldl (\<lambda>f i. append_file f wfile (walker_line E i)) fs ms)
        \<and> (\<forall>p m c a. (p, m, c, a) \<in> set ms \<longleftrightarrow>
              (\<exists>root' dirs files file.
                  (root', dirs, files) \<in> set (os_walk E r) \<and> file \<in> set files
                \<and> p = path_join root' file
                \<and> os_stat E p = Some \<lparr>st_mtime = m, st_ctime = c, st_atime = a\<rparr>
                \<and> (exts = {} \<or> lower (snd (splitext p)) \<in> exts)
                \<and> (sd < m \<and> m < ed \<or> sd < c \<and> c < ed \<or> sd < a \<and> a < ed)))
        \<and> (\<forall>p m c a. (m \<le> sd \<or> ed \<le> m) \<and> (c \<le> sd \<or> ed \<le> c) \<and> (a \<le> sd \<or> ed \<le> a)
              \<longrightarrow> (p, m, c, a) \<notin> set ms)"
proof -
  let ?ms = "reported_walk E exts sd ed (os_walk E r)"
  have f: "append_lines fs wfile (map (walker_line E) ?ms)
      = foldl (\<lambda>f i. append_file f wfile (walker_line E i)) fs ?ms"
    by (simp add: append_lines_def foldl_map)
  have 1: "walker E self wfile fs =
      (Inr (length ?ms, if self_sort_info self then Some ?ms else None),
       foldl (\<lambda>f i. append_file f wfile (walker_line E i)) fs ?ms)"
    using walker_some[OF assms, of wfile fs] f by simp
  have 2: "\<forall>p m c a. (p, m, c, a) \<in> set ?ms \<longleftrightarrow>
              (\<exists>root' dirs files file.
                  (root', dirs, files) \<in> set (os_walk E r) \<and> file \<in> set files
                \<and> p = path_join root' file
                \<and> os_stat E p = Some \<lparr>st_mtime = m, st_ctime = c, st_atime = a\<rparr>
                \<and> (exts = {} \<or> lower (snd (splitext p)) \<in> exts)
                \<and> (sd < m \<and> m < ed \<or> sd < c \<and> c < ed \<or> sd < a \<and> a < ed))"
    using reported_walk_mem by blast
  have 3: "\<forall>p m c a. (m \<le> sd \<or> ed \<le> m) \<and> (c \<le> sd \<or> ed \<le> c) \<and> (a \<le> sd \<or> ed \<le> a)
              \<longrightarrow> (p, m, c, a) \<notin> set ?ms"
    by (auto simp: reported_walk_mem)
  from 1 2 3 show ?thesis by blast
qed

lemma demo_init_default:
  "init demo_env (Some ''/home/user'') None None True None None True
     = Inr (demo_finder\<lparr>self_extensions := None\<rparr>)"
  by (simp add: init_def demo_env_def demo_now_def demo_finder_def truthy_def minus_days_def)

lemma demo_walker_no_filter:
  assumes "self_root self = Some ''/home/user''"
    and "timestamp demo_env (self_start_date self) = Some sd"
    and "timestamp demo_env (self_end_date self) = Some ed"
    and "self_extensions self = None"
  shows "walker demo_env self wfile fs = (Inl AttributeError, fs)"
proof -
  have st: "os_stat demo_env (path_join ''/home/user'' ''notes.md'')
      = Some \<lparr>st_mtime = 1476331 / 2, st_ctime = 738100, st_atime = 738100\<rparr>"
    by (simp add: demo_paths demo_env_def demo_stat_def)
  show ?thesis
    using assms(1,2,3)
    by (simp add: walker_def demo_walk walker_file_no_filter[OF assms(4) st])
qed

text \<open>
  Claim C1 says that every file inspected during a traversal matches exactly when one of
  its three timestamps lies strictly inside the window. In the default configuration
  (no extension filter; here with \<^verbatim>\<open>include_time\<close> and sorting set) the constructor
  builds a finder without the attribute \<^verbatim>\<open>_extensions\<close>. On the example tree the first
  file inspected, \<^verbatim>\<open>notes.md\<close>, has its modification time strictly between the two
  bounds, yet the traversal raises \<^verbatim>\<open>AttributeError\<close> on line 129, before the date test
  of lines 131 to 133, and nothing is reported. With a stored filter the date test is as
  the claim says (\<open>walker_reports_window\<close>).
\<close>

theorem C1_in_window_file_not_reported:
  "init demo_env (Some ''/home/user'') None None True None None True
     = Inr (demo_finder\<lparr>self_extensions := None\<rparr>)
   \<and> os_stat demo_env ''/home/user/notes.md''
     = Some \<lparr>st_mtime = 1476331 / 2, st_ctime = 738100, st_atime = 738100\<rparr>
   \<and> timestamp demo_env (self_start_date (demo_finder\<lparr>self_extensions := None\<rparr>))
     = Some 738162
   \<and> timestamp demo_env (self_end_date (demo_finder\<lparr>self_extensions := None\<rparr>))
     = Some (738169 + 37815 / 86400 + 250 / 86400000000)
   \<and> (738162 :: rat) < 1476331 / 2
   \<and> (1476331 / 2 :: rat) < 738169 + 37815 / 86400 + 250 / 86400000000
   \<and> walker demo_env (demo_finder\<lparr>self_extensions := None\<rparr>)
        ''/home/user/founded_table.txt'' Map.empty
     = (Inl AttributeError, Map.empty)"
proof -
  have w: "timestamp demo_env (self_start_date (demo_finder\<lparr>self_extensions := None\<rparr>))
     = Some 738162"
    "timestamp demo_env (self_end_date (demo_finder\<lparr>self_extensions := None\<rparr>))
     = Some (738169 + 37815 / 86400 + 250 / 86400000000)"
    using demo_window by simp_all
  have r: "self_root (demo_finder\<lparr>self_extensions := None\<rparr>) = Some ''/home/user''"
    by (simp add: demo_finder_def)
  have st: "os_stat demo_env ''/home/user/notes.md''
     = Some \<lparr>st_mtime = 1476331 / 2, st_ctime = 738100, st_atime = 738100\<rparr>"
    by (simp add: demo_env_def demo_stat_def)
  have x: "walker demo_env (demo_finder\<lparr>self_extensions := None\<rparr>)
        ''/home/user/founded_table.txt'' Map.empty = (Inl AttributeError, Map.empty)"
    by (rule demo_walker_no_filter[OF r w]) simp
  have c: "(738162 :: rat) < 1476331 / 2"
    "(1476331 / 2 :: rat) < 738169 + 37815 / 86400 + 250 / 86400000000" by simp_all
  from demo_init_default st w c x show ?thesis by (intro conjI)
qed


lemma demo_lower_md_plain: "lower ''md'' = ''md''"
  by code_simp




section \<open>Claims on the sorted reports\<close>

lemma append_file_apply:
  "append_file fs p t q = (if q = p then Some (content fs p @ t) else fs q)"
  by (simp add: append_file_def content_def split: option.splits)

lemma content_append_file:
  "content (append_file fs p t) q = (if q = p then content fs p @ t else content fs q)"
  by (simp add: content_def append_file_apply)

lemma itemgetter_le:
  "itemgetter_2_1_3_0 (p, m, c, a) \<le> itemgetter_2_1_3_0 (p', m', c', a') \<longleftrightarrow>
     c < c' \<or> c = c' \<and> (m < m' \<or> m = m' \<and> (a < a' \<or> a = a' \<and> p \<le> p'))"
  by (auto simp: itemgetter_2_1_3_0_def less_eq_prod_def)

lemma sort_files_list_sorted:
  assumes "i < j" and "j < length files_list"
  shows "itemgetter_2_1_3_0 (sort_files_list files_list ! i)
           \<le> itemgetter_2_1_3_0 (sort_files_list files_list ! j)"
proof -
  have s: "sorted (map itemgetter_2_1_3_0 (sort_files_list files_list))"
    by (simp add: sort_files_list_def)
  have l: "length (sort_files_list files_list) = length files_list"
    by (simp add: sort_files_list_def)
  from assms l have j: "j < length (map itemgetter_2_1_3_0 (sort_files_list files_list))"
    by simp
  from s assms(1) j
  have "map itemgetter_2_1_3_0 (sort_files_list files_list) ! i
          \<le> map itemgetter_2_1_3_0 (sort_files_list files_list) ! j"
    by (simp add: sorted_iff_nth_mono_less)
  with assms l show ?thesis by simp
qed

text \<open>
  Claim C5. The sorter rearranges the accumulated tuples (the sorted list has the same
  tuples with the same multiplicities) so that of any two positions the earlier tuple
  has the smaller creation time, or the same creation time and the smaller modification
  time, or both the same and the smaller access time, or all three the same and a path
  that is not greater in the lexicographic order. The list report and the table report
  (two different files) each receive, appended to what they held, the renderings of the
  tuples in that order.
\<close>

theorem C5_sort_order:
  assumes "list_file \<noteq> table_file"
  shows "mset (sort_files_list files_list) = mset files_list
       \<and> (\<forall>i j. i < j \<and> j < length files_list \<longrightarrow>
            (case sort_files_list files_list ! i of (p, m, c, a) \<Rightarrow>
             case sort_files_list files_list ! j of (p', m', c', a') \<Rightarrow>
               c < c' \<or> c = c' \<and> (m < m' \<or> m = m' \<and> (a < a' \<or> a = a' \<and> p \<le> p'))))
       \<and> sorter E list_file table_file files_list fs list_file
            = Some (content fs list_file
                    @ str_join nl (map (sorter_info E) (sort_files_list files_list)) @ nl @ nl)
       \<and> sorter E list_file table_file files_list fs table_file
            = Some (content fs table_file
                    @ str_join nl (map (sorter_info_table E) (sort_files_list files_list)))"
proof (intro conjI allI impI)
  show "mset (sort_files_list files_list) = mset files_list"
    by (simp add: sort_files_list_def)
next
  fix i j
  assume ij: "i < j \<and> j < length files_list"
  obtain p m c a where x: "sort_files_list files_list ! i = (p, m, c, a)"
    by (cases "sort_files_list files_list ! i") auto
  obtain p' m' c' a' where y: "sort_files_list files_list ! j = (p', m', c', a')"
    by (cases "sort_files_list files_list ! j") auto
  from ij have "itemgetter_2_1_3_0 (sort_files_list files_list ! i)
           \<le> itemgetter_2_1_3_0 (sort_files_list files_list ! j)"
    by (simp add: sort_files_list_sorted)
  then have "c < c' \<or> c = c' \<and> (m < m' \<or> m = m' \<and> (a < a' \<or> a = a' \<and> p \<le> p'))"
    unfolding x y by (simp only: itemgetter_le)
  then show "case sort_files_list files_list ! i of (p, m, c, a) \<Rightarrow>
             case sort_files_list files_list ! j of (p', m', c', a') \<Rightarrow>
               c < c' \<or> c = c' \<and> (m < m' \<or> m = m' \<and> (a < a' \<or> a = a' \<and> p \<le> p'))"
    unfolding x y by simp
next
  show "sorter E list_file table_file files_list fs list_file
            = Some (content fs list_file
                    @ str_join nl (map (sorter_info E) (sort_files_list files_list)) @ nl @ nl)"
    using assms by (simp add: sorter_def Let_def append_file_apply)
next
  show "sorter E list_file table_file files_list fs table_file
            = Some (content fs table_file
                    @ str_join nl (map (sorter_info_table E) (sort_files_list files_list)))"
    using assms by (simp add: sorter_def Let_def append_file_apply content_append_file)
qed

lemma demo_sort:
  "sort_files_list
     [(''/home/user/notes.md'', 1476331 / 2, 738100, 738100),
      (''/home/user/Makefile'', 738167, 738167, 738167),
      (''/home/user/a.md'', 1476331 / 2, 738100, 738100),
      (''/home/user/sub/b.MD'', 738100, 738167, 738100)]
   = [(''/home/user/a.md'', 1476331 / 2, 738100, 738100),
      (''/home/user/notes.md'', 1476331 / 2, 738100, 738100),
      (''/home/user/sub/b.MD'', 738100, 738167, 738100),
      (''/home/user/Makefile'', 738167, 738167, 738167)]"
  by (simp add: sort_files_list_def itemgetter_2_1_3_0_def less_eq_prod_def less_prod_def)

text \<open>Four tuples, two of them equal in all three times and ordered by path.\<close>

theorem C5_witness:
  "''/home/user/founded_list_sorted.txt'' \<noteq> ''/home/user/founded_table_sorted.txt''
   \<and> mset (sort_files_list
         [(''/home/user/notes.md'', 1476331 / 2, 738100, 738100),
          (''/home/user/Makefile'', 738167, 738167, 738167),
          (''/home/user/a.md'', 1476331 / 2, 738100, 738100),
          (''/home/user/sub/b.MD'', 738100, 738167, 738100)])
       = mset [(''/home/user/notes.md'', 1476331 / 2, 738100, 738100),
          (''/home/user/Makefile'', 738167, 738167, 738167),
          (''/home/user/a.md'', 1476331 / 2, 738100, 738100),
          (''/home/user/sub/b.MD'', 738100, 738167, 738100)]
   \<and> sorter demo_env ''/home/user/founded_list_sorted.txt'' ''/home/user/founded_table_sorted.txt''
         [(''/home/user/notes.md'', 1476331 / 2, 738100, 738100),
          (''/home/user/Makefile'', 738167, 738167, 738167),
          (''/home/user/a.md'', 1476331 / 2, 738100, 738100),
          (''/home/user/sub/b.MD'', 738100, 738167, 738100)]
         [''/home/user/founded_list_sorted.txt'' \<mapsto> ''earlier'']
         ''/home/user/founded_list_sorted.txt''
       = Some (''earlier''
           @ str_join nl (map (sorter_info demo_env)
               [(''/home/user/a.md'', 1476331 / 2, 738100, 738100),
                (''/home/user/notes.md'', 1476331 / 2, 738100, 738100),
                (''/home/user/sub/b.MD'', 738100, 738167, 738100),
                (''/home/user/Makefile'', 738167, 738167, 738167)])
           @ nl @ nl)
   \<and> sorter demo_env ''/home/user/founded_list_sorted.txt'' ''/home/user/founded_table_sorted.txt''
         [(''/home/user/notes.md'', 1476331 / 2, 738100, 738100),
          (''/home/user/Makefile'', 738167, 738167, 738167),
          (''/home/user/a.md'', 1476331 / 2, 738100, 738100),
          (''/home/user/sub/b.MD'', 738100, 738167, 738100)]
         [''/home/user/founded_list_sorted.txt'' \<mapsto> ''earlier'']
         ''/home/user/founded_table_sorted.txt''
       = Some (str_join nl (map (sorter_info_table demo_env)
               [(''/home/user/a.md'', 1476331 / 2, 738100, 738100),
                (''/home/user/notes.md'', 1476331 / 2, 738100, 738100),
                (''/home/user/sub/b.MD'', 738100, 738167, 738100),
                (''/home/user/Makefile'', 738167, 738167, 738167)]))"
proof -
  have h: "''/home/user/founded_list_sorted.txt'' \<noteq> ''/home/user/founded_table_sorted.txt''"
    by simp
  have c1: "content [''/home/user/founded_list_sorted.txt'' \<mapsto> ''earlier'']
              ''/home/user/founded_list_sorted.txt'' = ''earlier''"
    by (simp add: content_def)
  have c2: "content [''/home/user/founded_list_sorted.txt'' \<mapsto> ''earlier'']
              ''/home/user/founded_table_sorted.txt'' = []"
    by (simp add: content_def)
  note t = C5_sort_order[OF h,
      of "[(''/home/user/notes.md'', 1476331 / 2, 738100, 738100),
          (''/home/user/Makefile'', 738167, 738167, 738167),
          (''/home/user/a.md'', 1476331 / 2, 738100, 738100),
          (''/home/user/sub/b.MD'', 738100, 738167, 738100)]"
         demo_env "[''/home/user/founded_list_sorted.txt'' \<mapsto> ''earlier'']"]
  from t have m: "mset (sort_files_list
         [(''/home/user/notes.md'', 1476331 / 2, 738100, 738100),
          (''/home/user/Makefile'', 738167, 738167, 738167),
          (''/home/user/a.md'', 1476331 / 2, 738100, 738100),
          (''/home/user/sub/b.MD'', 738100, 738167, 738100)])
       = mset [(''/home/user/notes.md'', 1476331 / 2, 738100, 738100),
          (''/home/user/Makefile'', 738167, 738167, 738167),
          (''/home/user/a.md'', 1476331 / 2, 738100, 738100),
          (''/home/user/sub/b.MD'', 738100, 738167, 738100)]"
    by (rule conjunct1)
  from t have l: "sorter demo_env ''/home/user/founded_list_sorted.txt''
         ''/home/user/founded_table_sorted.txt''
         [(''/home/user/notes.md'', 1476331 / 2, 738100, 738100),
          (''/home/user/Makefile'', 738167, 738167, 738167),
          (''/home/user/a.md'', 1476331 / 2, 738100, 738100),
          (''/home/user/sub/b.MD'', 738100, 738167, 738100)]
         [''/home/user/founded_list_sorted.txt'' \<mapsto> ''earlier'']
         ''/home/user/founded_list_sorted.txt''
       = Some (''earlier''
           @ str_join nl (map (sorter_info demo_env)
               [(''/home/user/a.md'', 1476331 / 2, 738100, 738100),
                (''/home/user/notes.md'', 1476331 / 2, 738100, 738100),
                (''/home/user/sub/b.MD'', 738100, 738167, 738100),
                (''/home/user/Makefile'', 738167, 738167, 738167)])
           @ nl @ nl)"
    unfolding demo_sort c1 by blast
  from t have tb: "sorter demo_env ''/home/user/founded_list_sorted.txt''
         ''/home/user/founded_table_sorted.txt''
         [(''/home/user/notes.md'', 1476331 / 2, 738100, 738100),
          (''/home/user/Makefile'', 738167, 738167, 738167),
          (''/home/user/a.md'', 1476331 / 2, 738100, 738100),
          (''/home/user/sub/b.MD'', 738100, 738167, 738100)]
         [''/home/user/founded_list_sorted.txt'' \<mapsto> ''earlier'']
         ''/home/user/founded_table_sorted.txt''
       = Some (str_join nl (map (sorter_info_table demo_env)
               [(''/home/user/a.md'', 1476331 / 2, 738100, 738100),
                (''/home/user/notes.md'', 1476331 / 2, 738100, 738100),
                (''/home/user/sub/b.MD'', 738100, 738167, 738100),
                (''/home/user/Makefile'', 738167, 738167, 738167)]))"
    unfolding demo_sort c2 by simp
  from h m l tb show ?thesis by (intro conjI)
qed

section \<open>Lemmas on the report files of a run\<close>

lemma append_lines_apply:
  "append_lines fs p ts q =
     (if q = p \<and> ts \<noteq> [] then Some (content fs p @ concat ts) else fs q)"
proof (induction ts arbitrary: fs)
  case Nil
  then show ?case by (simp add: append_lines_def)
next
  case (Cons t ts)
  have "append_lines fs p (t # ts) q = append_lines (append_file fs p t) p ts q"
    by (simp add: append_lines_def)
  also have "\<dots> = (if q = p \<and> ts \<noteq> [] then Some (content (append_file fs p t) p @ concat ts)
                   else append_file fs p t q)"
    by (rule Cons.IH)
  also have "\<dots> = (if q = p \<and> t # ts \<noteq> [] then Some (content fs p @ concat (t # ts)) else fs q)"
    by (simp add: content_append_file append_file_apply)
  finally show ?case .
qed

lemma append_lines_present:
  "fs p = Some x \<Longrightarrow> append_lines fs p ts p = Some (x @ concat ts)"
  by (simp add: append_lines_apply content_def)

lemma write_header_apply:
  "write_header fs p h q =
     (if q = p then Some ((case fs p of None \<Rightarrow> [] | Some old \<Rightarrow> old @ nl @ nl @ nl) @ h)
      else fs q)"
  by (simp add: write_header_def write_file_def append_file_apply content_def split: option.splits)

lemma sorter_apply:
  "list_file \<noteq> table_file \<Longrightarrow>
   sorter E list_file table_file files_list fs q =
     (if q = list_file
      then Some (content fs list_file
                 @ str_join nl (map (sorter_info E) (sort_files_list files_list)) @ nl @ nl)
      else if q = table_file
      then Some (content fs table_file
                 @ str_join nl (map (sorter_info_table E) (sort_files_list files_list)))
      else fs q)"
  by (simp add: sorter_def Let_def append_file_apply content_append_file)

lemma starting_text_dirs:
  "starting_text E (self\<lparr>self_root := a, self_output_info_to := b\<rparr>) = starting_text E self"
  by (simp add: starting_text_def)

lemma path_join_relative: "\<not> startswith b ''/'' \<Longrightarrow> \<exists>s. path_join a b = s @ b"
proof (cases "a = [] \<or> endswith a ''/''")
  case True
  assume "\<not> startswith b ''/''"
  with True have "path_join a b = a @ b" by (simp add: path_join_def)
  then show ?thesis by blast
next
  case False
  assume "\<not> startswith b ''/''"
  with False have "path_join a b = (a @ ''/'') @ b" by (simp add: path_join_def)
  then show ?thesis by blast
qed

lemma path_join_report_names:
  "path_join out ''founded_table.txt'' \<noteq> path_join out ''founded_list_sorted.txt''"
  "path_join out ''founded_table.txt'' \<noteq> path_join out ''founded_table_sorted.txt''"
  "path_join out ''founded_list_sorted.txt'' \<noteq> path_join out ''founded_table_sorted.txt''"
  by (simp_all add: path_join_def startswith_def)

lemma drop_last_67_append: "length t = 67 \<Longrightarrow> drop_last_67 (s @ t) = s"
  by (simp add: drop_last_67_def)

lemma drop_last_67_starting_text:
  "drop_last_67 (starting_text E self) =
     ''script started at: '' @ str_datetime E (now_run E) @ nl @
     ''start date: '' @ str_datetime E (self_start_date self) @ nl @
     ''end date: '' @ str_datetime E (self_end_date self)"
  (is "_ = ?A")
proof -
  have s: "starting_text E self = ?A @ (nl @ legend)"
    by (simp add: starting_text_def)
  have l: "length (nl @ legend) = 67"
    by (simp add: legend_def nl_def)
  show ?thesis
    unfolding s by (rule drop_last_67_append[OF l])
qed

lemma find_files_resolved:
  assumes rd: "resolve_dirs E self = Inr (cwd, out)"
  shows "find_files E self fs =
     (case walker E (self\<lparr>self_root := Some cwd, self_output_info_to := Some out\<rparr>)
             (path_join out ''founded_table.txt'')
             (write_header fs (path_join out ''founded_table.txt'') (starting_text E self)) of
        (Inl e, fs2) \<Rightarrow> (Inl e, fs2)
      | (Inr (founded, flist), fs2) \<Rightarrow>
          if self_sort_info self
          then (case flist of
                  None \<Rightarrow> (Inl AttributeError, fs2)
                | Some l \<Rightarrow>
                    (Inr (self\<lparr>self_root := Some cwd, self_output_info_to := Some out\<rparr>,
                          founded, out),
                     sorter E (path_join out ''founded_list_sorted.txt'')
                       (path_join out ''founded_table_sorted.txt'') l
                       (write_header
                          (write_header fs2 (path_join out ''founded_list_sorted.txt'')
                             (drop_last_67 (starting_text E self) @ nl @ nl))
                          (path_join out ''founded_table_sorted.txt'') (starting_text E self))))
          else (Inr (self\<lparr>self_root := Some cwd, self_output_info_to := Some out\<rparr>,
                     founded, out), fs2))"
  unfolding find_files_def rd
  by (simp add: Let_def starting_text_dirs split: prod.splits sum.splits option.splits)

lemma find_files_effect:
  assumes rd: "resolve_dirs E self = Inr (cwd, out)"
    and ff: "find_files E self fs = (res, fs')"
  shows "\<exists>lines. fs' (path_join out ''founded_table.txt'')
            = Some ((case fs (path_join out ''founded_table.txt'') of
                       None \<Rightarrow> [] | Some old \<Rightarrow> old @ nl @ nl @ nl)
                    @ starting_text E self @ concat lines)"
    and "(if self_sort_info self \<and> (\<exists>v. res = Inr v)
            then (\<exists>l. fs' (path_join out ''founded_list_sorted.txt'')
                     = Some ((case fs (path_join out ''founded_list_sorted.txt'') of
                                None \<Rightarrow> [] | Some old \<Rightarrow> old @ nl @ nl @ nl)
                             @ drop_last_67 (starting_text E self) @ nl @ nl
                             @ str_join nl (map (sorter_info E) (sort_files_list l)) @ nl @ nl)
                   \<and> fs' (path_join out ''founded_table_sorted.txt'')
                     = Some ((case fs (path_join out ''founded_table_sorted.txt'') of
                                None \<Rightarrow> [] | Some old \<Rightarrow> old @ nl @ nl @ nl)
                             @ starting_text E self
                             @ str_join nl (map (sorter_info_table E) (sort_files_list l))))
            else fs' (path_join out ''founded_list_sorted.txt'')
                   = fs (path_join out ''founded_list_sorted.txt'')
               \<and> fs' (path_join out ''founded_table_sorted.txt'')
                   = fs (path_join out ''founded_table_sorted.txt''))"
proof -
  let ?wt = "path_join out ''founded_table.txt''"
  let ?pl = "path_join out ''founded_list_sorted.txt''"
  let ?pt = "path_join out ''founded_table_sorted.txt''"
  let ?self1 = "self\<lparr>self_root := Some cwd, self_output_info_to := Some out\<rparr>"
  let ?st = "starting_text E self"
  let ?fs1 = "write_header fs ?wt ?st"
  note ne = path_join_report_names[of out]
  obtain wres fs2 where w: "walker E ?self1 ?wt ?fs1 = (wres, fs2)"
    by (cases "walker E ?self1 ?wt ?fs1") auto
  from walker_any[OF w] obtain ms where
    fs2: "fs2 = append_lines ?fs1 ?wt (map (walker_line E) ms)"
    and wr: "\<And>n l. wres = Inr (n, l) \<Longrightarrow>
               n = length ms \<and> l = (if self_sort_info ?self1 then Some ms else None)"
    by blast
  have h1: "?fs1 ?wt = Some ((case fs ?wt of None \<Rightarrow> [] | Some old \<Rightarrow> old @ nl @ nl @ nl) @ ?st)"
    by (simp add: write_header_apply)
  have t2: "fs2 ?wt = Some ((case fs ?wt of None \<Rightarrow> [] | Some old \<Rightarrow> old @ nl @ nl @ nl)
                @ ?st @ concat (map (walker_line E) ms))"
    unfolding fs2
    using append_lines_present[of ?fs1 ?wt _ "map (walker_line E) ms", OF h1] by simp
  have o2: "\<And>q. q \<noteq> ?wt \<Longrightarrow> fs2 q = fs q"
    unfolding fs2 by (simp add: append_lines_apply write_header_apply)
  have l2: "fs2 ?pl = fs ?pl" using ne by (simp add: o2)
  have p2: "fs2 ?pt = fs ?pt" using ne by (simp add: o2)
  have ps: "fs' ?wt = fs2 ?wt
    \<and> (if self_sort_info self \<and> (\<exists>v. res = Inr v)
            then (\<exists>l. fs' ?pl
                     = Some ((case fs ?pl of None \<Rightarrow> [] | Some old \<Rightarrow> old @ nl @ nl @ nl)
                             @ drop_last_67 ?st @ nl @ nl
                             @ str_join nl (map (sorter_info E) (sort_files_list l)) @ nl @ nl)
                   \<and> fs' ?pt
                     = Some ((case fs ?pt of None \<Rightarrow> [] | Some old \<Rightarrow> old @ nl @ nl @ nl)
                             @ ?st
                             @ str_join nl (map (sorter_info_table E) (sort_files_list l))))
            else fs' ?pl = fs ?pl \<and> fs' ?pt = fs ?pt)"
  proof (cases wres)
    case (Inl e)
    have r: "res = Inl e" "fs' = fs2"
      using ff unfolding find_files_resolved[OF rd] w Inl by simp_all
    from r have nv: "\<not> (self_sort_info self \<and> (\<exists>v. res = Inr v))" by simp
    show ?thesis unfolding if_not_P[OF nv] using l2 p2 r by simp
  next
    case (Inr v)
    obtain n l where v: "v = (n, l)" by (cases v) auto
    from wr[of n l] Inr v have l: "l = (if self_sort_info self then Some ms else None)"
      by simp
    show ?thesis
    proof (cases "self_sort_info self")
      case False
      have r: "fs' = fs2"
        using ff False unfolding find_files_resolved[OF rd] w Inr v by simp
      from False have nv: "\<not> (self_sort_info self \<and> (\<exists>v. res = Inr v))" by simp
      show ?thesis unfolding if_not_P[OF nv] using l2 p2 r by simp
    next
      case True
      let ?fs3 = "write_header fs2 ?pl (drop_last_67 ?st @ nl @ nl)"
      let ?fs4 = "write_header ?fs3 ?pt ?st"
      from True l have ls: "l = Some ms" by simp
      have r: "res = Inr (?self1, n, out)" "fs' = sorter E ?pl ?pt ms ?fs4"
        using ff True unfolding find_files_resolved[OF rd] w Inr v ls by simp_all
      from r True have yv: "self_sort_info self \<and> (\<exists>v. res = Inr v)" by simp
      have a: "fs' ?wt = fs2 ?wt"
        unfolding r using ne by (simp add: sorter_apply write_header_apply)
      have b: "fs' ?pl = Some ((case fs ?pl of None \<Rightarrow> [] | Some old \<Rightarrow> old @ nl @ nl @ nl)
                 @ drop_last_67 ?st @ nl @ nl
                 @ str_join nl (map (sorter_info E) (sort_files_list ms)) @ nl @ nl)"
        unfolding r using ne
        by (simp add: sorter_apply write_header_apply content_def l2)
      have c: "fs' ?pt = Some ((case fs ?pt of None \<Rightarrow> [] | Some old \<Rightarrow> old @ nl @ nl @ nl)
                 @ ?st @ str_join nl (map (sorter_info_table E) (sort_files_list ms)))"
        unfolding r using ne
        by (simp add: sorter_apply write_header_apply content_def p2)
      from b c have "\<exists>l. fs' ?pl
                     = Some ((case fs ?pl of None \<Rightarrow> [] | Some old \<Rightarrow> old @ nl @ nl @ nl)
                             @ drop_last_67 ?st @ nl @ nl
                             @ str_join nl (map (sorter_info E) (sort_files_list l)) @ nl @ nl)
                   \<and> fs' ?pt
                     = Some ((case fs ?pt of None \<Rightarrow> [] | Some old \<Rightarrow> old @ nl @ nl @ nl)
                             @ ?st
                             @ str_join nl (map (sorter_info_table E) (sort_files_list l)))"
        by (intro exI[of _ ms] conjI)
      with a show ?thesis unfolding if_P[OF yv] by (intro conjI)
    qed
  qed
  from ps have prim: "fs' ?wt = fs2 ?wt" by (rule conjunct1)
  from prim t2 show "\<exists>lines. fs' ?wt
            = Some ((case fs ?wt of None \<Rightarrow> [] | Some old \<Rightarrow> old @ nl @ nl @ nl)
                    @ ?st @ concat lines)"
    by (intro exI[of _ "map (walker_line E) ms"]) simp
  from ps show "(if self_sort_info self \<and> (\<exists>v. res = Inr v)
            then (\<exists>l. fs' ?pl
                     = Some ((case fs ?pl of None \<Rightarrow> [] | Some old \<Rightarrow> old @ nl @ nl @ nl)
                             @ drop_last_67 ?st @ nl @ nl
                             @ str_join nl (map (sorter_info E) (sort_files_list l)) @ nl @ nl)
                   \<and> fs' ?pt
                     = Some ((case fs ?pt of None \<Rightarrow> [] | Some old \<Rightarrow> old @ nl @ nl @ nl)
                             @ ?st
                             @ str_join nl (map (sorter_info_table E) (sort_files_list l))))
            else fs' ?pl = fs ?pl \<and> fs' ?pt = fs ?pt)" by (rule conjunct2)
qed

section \<open>Claims on the run\<close>

text \<open>
  Claim C6. A run whose directories do not resolve leaves the file system as it was.
  Otherwise, whatever the outcome of the run, the primary report afterwards holds what
  it held before (nothing when it was not there), then three line feeds when it was
  there, then the run header, then what the walk appended. When sorting is enabled and
  the run returns, the same holds of the sorted list report (with the header without its
  legend) and of the sorted table report; in every other case the two sorted reports
  are exactly as before the run.
\<close>

theorem C6_reports_append_only:
  "(resolve_dirs E self = Inl e \<longrightarrow> find_files E self fs = (Inl e, fs))
   \<and> (resolve_dirs E self = Inr (cwd, out) \<and> find_files E self fs = (res, fs') \<longrightarrow>
        (\<exists>rest. fs' (path_join out ''founded_table.txt'')
            = Some ((case fs (path_join out ''founded_table.txt'') of
                       None \<Rightarrow> [] | Some old \<Rightarrow> old @ nl @ nl @ nl)
                    @ starting_text E self @ rest))
      \<and> (self_sort_info self \<and> (\<exists>v. res = Inr v) \<longrightarrow>
            (\<exists>rest. fs' (path_join out ''founded_list_sorted.txt'')
                = Some ((case fs (path_join out ''founded_list_sorted.txt'') of
                           None \<Rightarrow> [] | Some old \<Rightarrow> old @ nl @ nl @ nl)
                        @ drop_last_67 (starting_text E self) @ nl @ nl @ rest))
          \<and> (\<exists>rest. fs' (path_join out ''founded_table_sorted.txt'')
                = Some ((case fs (path_join out ''founded_table_sorted.txt'') of
                           None \<Rightarrow> [] | Some old \<Rightarrow> old @ nl @ nl @ nl)
                        @ starting_text E self @ rest)))
      \<and> (\<not> (self_sort_info self \<and> (\<exists>v. res = Inr v)) \<longrightarrow>
            fs' (path_join out ''founded_list_sorted.txt'')
              = fs (path_join out ''founded_list_sorted.txt'')
          \<and> fs' (path_join out ''founded_table_sorted.txt'')
              = fs (path_join out ''founded_table_sorted.txt'')))"
proof (intro conjI impI)
  assume "resolve_dirs E self = Inl e"
  then show "find_files E self fs = (Inl e, fs)" by (simp add: find_files_def)
next
  assume a: "resolve_dirs E self = Inr (cwd, out) \<and> find_files E self fs = (res, fs')"
  then have rd: "resolve_dirs E self = Inr (cwd, out)"
    and ff: "find_files E self fs = (res, fs')" by simp_all
  from find_files_effect(1)[OF rd ff]
  show "\<exists>rest. fs' (path_join out ''founded_table.txt'')
            = Some ((case fs (path_join out ''founded_table.txt'') of
                       None \<Rightarrow> [] | Some old \<Rightarrow> old @ nl @ nl @ nl)
                    @ starting_text E self @ rest)"
    by blast
next
  assume a: "resolve_dirs E self = Inr (cwd, out) \<and> find_files E self fs = (res, fs')"
    and s: "self_sort_info self \<and> (\<exists>v. res = Inr v)"
  from a have rd: "resolve_dirs E self = Inr (cwd, out)"
    and ff: "find_files E self fs = (res, fs')" by simp_all
  from find_files_effect(2)[OF rd ff] obtain l where
    "fs' (path_join out ''founded_list_sorted.txt'')
       = Some ((case fs (path_join out ''founded_list_sorted.txt'') of
                  None \<Rightarrow> [] | Some old \<Rightarrow> old @ nl @ nl @ nl)
               @ drop_last_67 (starting_text E self) @ nl @ nl
               @ str_join nl (map (sorter_info E) (sort_files_list l)) @ nl @ nl)"
    unfolding if_P[OF s] by blast
  then show "\<exists>rest. fs' (path_join out ''founded_list_sorted.txt'')
                = Some ((case fs (path_join out ''founded_list_sorted.txt'') of
                           None \<Rightarrow> [] | Some old \<Rightarrow> old @ nl @ nl @ nl)
                        @ drop_last_67 (starting_text E self) @ nl @ nl @ rest)"
    by (intro exI[of _ "str_join nl (map (sorter_info E) (sort_files_list l)) @ nl @ nl"])
next
  assume a: "resolve_dirs E self = Inr (cwd, out) \<and> find_files E self fs = (res, fs')"
    and s: "self_sort_info self \<and> (\<exists>v. res = Inr v)"
  from a have rd: "resolve_dirs E self = Inr (cwd, out)"
    and ff: "find_files E self fs = (res, fs')" by simp_all
  from find_files_effect(2)[OF rd ff] obtain l where
    "fs' (path_join out ''founded_table_sorted.txt'')
       = Some ((case fs (path_join out ''founded_table_sorted.txt'') of
                  None \<Rightarrow> [] | Some old \<Rightarrow> old @ nl @ nl @ nl)
               @ starting_text E self
               @ str_join nl (map (sorter_info_table E) (sort_files_list l)))"
    unfolding if_P[OF s] by blast
  then show "\<exists>rest. fs' (path_join out ''founded_table_sorted.txt'')
                = Some ((case fs (path_join out ''founded_table_sorted.txt'') of
                           None \<Rightarrow> [] | Some old \<Rightarrow> old @ nl @ nl @ nl)
                        @ starting_text E self @ rest)"
    by (intro exI[of _ "str_join nl (map (sorter_info_table E) (sort_files_list l))"])
next
  assume a: "resolve_dirs E self = Inr (cwd, out) \<and> find_files E self fs = (res, fs')"
    and s: "\<not> (self_sort_info self \<and> (\<exists>v. res = Inr v))"
  from a have rd: "resolve_dirs E self = Inr (cwd, out)"
    and ff: "find_files E self fs = (res, fs')" by simp_all
  from find_files_effect(2)[OF rd ff]
  show "fs' (path_join out ''founded_list_sorted.txt'')
              = fs (path_join out ''founded_list_sorted.txt'')"
    unfolding if_not_P[OF s] by (rule conjunct1)
next
  assume a: "resolve_dirs E self = Inr (cwd, out) \<and> find_files E self fs = (res, fs')"
    and s: "\<not> (self_sort_info self \<and> (\<exists>v. res = Inr v))"
  from a have rd: "resolve_dirs E self = Inr (cwd, out)"
    and ff: "find_files E self fs = (res, fs')" by simp_all
  from find_files_effect(2)[OF rd ff]
  show "fs' (path_join out ''founded_table_sorted.txt'')
              = fs (path_join out ''founded_table_sorted.txt'')"
    unfolding if_not_P[OF s] by (rule conjunct2)
qed

lemma demo_resolve_dirs_any:
  assumes "self_root self = Some ''/home/user''" and "self_output_info_to self = None"
  shows "resolve_dirs demo_env self = Inr (''/home/user'', ''/home/user'')"
  using assms
  by (simp add: resolve_dirs_def demo_env_def truthy_def path_join_def startswith_def Let_def)

lemma demo_resolve_dirs: "resolve_dirs demo_env demo_finder = Inr (''/home/user'', ''/home/user'')"
  by (rule demo_resolve_dirs_any) (simp_all add: demo_finder_def)

lemma demo_report_paths:
  "path_join ''/home/user'' ''founded_table.txt'' = ''/home/user/founded_table.txt''"
  "path_join ''/home/user'' ''founded_list_sorted.txt'' = ''/home/user/founded_list_sorted.txt''"
  "path_join ''/home/user'' ''founded_table_sorted.txt'' = ''/home/user/founded_table_sorted.txt''"
  by (simp_all add: path_join_def startswith_def endswith_def)

lemma demo_find_files_returns_any:
  assumes "self_root self = Some ''/home/user''" and "self_output_info_to self = None"
    and "timestamp demo_env (self_start_date self) = Some sd"
    and "timestamp demo_env (self_end_date self) = Some ed"
    and "self_extensions self = Some exts"
  shows "\<exists>v. fst (find_files demo_env self fs) = Inr v"
proof -
  let ?self1 = "self\<lparr>self_root := Some ''/home/user'',
                         self_output_info_to := Some ''/home/user''\<rparr>"
  have h1: "self_root ?self1 = Some ''/home/user''" by simp
  have h2: "timestamp demo_env (self_start_date ?self1) = Some sd" using assms(3) by simp
  have h3: "timestamp demo_env (self_end_date ?self1) = Some ed" using assms(4) by simp
  have h4: "self_extensions ?self1 = Some exts" using assms(5) by simp
  obtain n l fs2 where w: "walker demo_env ?self1 ''/home/user/founded_table.txt''
      (write_header fs ''/home/user/founded_table.txt'' (starting_text demo_env self))
      = (Inr (n, l), fs2)" and l: "self_sort_info self \<longrightarrow> l \<noteq> None"
    using walker_some[OF h1 h2 h3 h4] by simp
  show ?thesis
  proof (cases "self_sort_info self")
    case True
    with l obtain ms where "l = Some ms" by auto
    with True show ?thesis
      unfolding find_files_resolved[OF demo_resolve_dirs_any[OF assms(1,2)]] demo_report_paths w
      by simp
  next
    case False
    then show ?thesis
      unfolding find_files_resolved[OF demo_resolve_dirs_any[OF assms(1,2)]] demo_report_paths w
      by simp
  qed
qed

lemma demo_find_files_returns: "\<exists>v. fst (find_files demo_env demo_finder fs) = Inr v"
proof -
  have 1: "self_root demo_finder = Some ''/home/user''" "self_output_info_to demo_finder = None"
    "self_extensions demo_finder = Some {''.md''}"
    by (simp_all add: demo_finder_def)
  show ?thesis
    by (rule demo_find_files_returns_any[OF 1(1,2) demo_window 1(3)])
qed

text \<open>A run on the example tree with a primary report of an earlier run in place and
  no sorted reports yet.\<close>

theorem C6_witness:
  "resolve_dirs demo_env demo_finder = Inr (''/home/user'', ''/home/user'')
   \<and> self_sort_info demo_finder
   \<and> (\<exists>v. fst (find_files demo_env demo_finder
                  [''/home/user/founded_table.txt'' \<mapsto> ''earlier run'']) = Inr v)
   \<and> (\<exists>rest. snd (find_files demo_env demo_finder
                     [''/home/user/founded_table.txt'' \<mapsto> ''earlier run''])
                ''/home/user/founded_table.txt''
              = Some (''earlier run'' @ nl @ nl @ nl
                      @ starting_text demo_env demo_finder @ rest))
   \<and> (\<exists>rest. snd (find_files demo_env demo_finder
                     [''/home/user/founded_table.txt'' \<mapsto> ''earlier run''])
                ''/home/user/founded_list_sorted.txt''
              = Some (drop_last_67 (starting_text demo_env demo_finder) @ nl @ nl @ rest))
   \<and> (\<exists>rest. snd (find_files demo_env demo_finder
                     [''/home/user/founded_table.txt'' \<mapsto> ''earlier run''])
                ''/home/user/founded_table_sorted.txt''
              = Some (starting_text demo_env demo_finder @ rest))"
proof -
  let ?fs = "[''/home/user/founded_table.txt'' \<mapsto> ''earlier run'']"
  let ?r = "find_files demo_env demo_finder ?fs"
  have srt: "self_sort_info demo_finder" by (simp add: demo_finder_def)
  have ff: "?r = (fst ?r, snd ?r)" by simp
  from demo_find_files_returns obtain v where v: "fst ?r = Inr v" by blast
  then have s: "self_sort_info demo_finder \<and> (\<exists>v. fst ?r = Inr v)" using srt by blast
  note t = C6_reports_append_only[of demo_env demo_finder OSError ?fs
      "''/home/user''" "''/home/user''" "fst ?r" "snd ?r", THEN conjunct2, rule_format,
      OF conjI[OF demo_resolve_dirs ff]]
  from t have 1: "\<exists>rest. snd ?r ''/home/user/founded_table.txt''
              = Some (''earlier run'' @ nl @ nl @ nl
                      @ starting_text demo_env demo_finder @ rest)"
    by (simp add: demo_report_paths)
  from t s have 2: "\<exists>rest. snd ?r ''/home/user/founded_list_sorted.txt''
              = Some (drop_last_67 (starting_text demo_env demo_finder) @ nl @ nl @ rest)"
    by (simp add: demo_report_paths)
  from t s have 3: "\<exists>rest. snd ?r ''/home/user/founded_table_sorted.txt''
              = Some (starting_text demo_env demo_finder @ rest)"
    by (simp add: demo_report_paths)
  from demo_resolve_dirs srt v 1 2 3 show ?thesis by blast
qed

section \<open>Claims on unparseable dates\<close>

text \<open>
  Claim C8, as the code has it. When \<^verbatim>\<open>strptime\<close> rejects a start date that is not the
  empty string, or rejects an end date that is not the empty string, the constructor
  raises: no finder exists, \<^verbatim>\<open>find_files\<close> is never entered, and the file system after
  the run is the file system before it. The exception is \<^verbatim>\<open>ValueError\<close>, unless the
  start date is omitted on a clock within the first week of year 1. An empty string is
  never given to \<^verbatim>\<open>strptime\<close>: lines 96 and 101 test the truth value of the string, so
  the constructor does with the empty string what it does with an omitted bound.
\<close>

theorem C8_unparseable_date:
  "(truthy start_date
      \<and> strptime E (the start_date)
           (if \<not> include_time then ''%Y-%m-%d'' else ''%Y-%m-%d %H:%M:%S'') = None \<longrightarrow>
      init E r start_date end_date include_time out exts srt = Inl ValueError
      \<and> run E r start_date end_date include_time out exts srt fs = (Inl ValueError, fs))
   \<and> (truthy end_date
      \<and> strptime E (the end_date)
           (if \<not> include_time then ''%Y-%m-%d'' else ''%Y-%m-%d %H:%M:%S'') = None
      \<and> (truthy start_date \<or> 7 < toordinal (now_start E)) \<longrightarrow>
      init E r start_date end_date include_time out exts srt = Inl ValueError
      \<and> run E r start_date end_date include_time out exts srt fs = (Inl ValueError, fs))
   \<and> (truthy end_date
      \<and> strptime E (the end_date)
           (if \<not> include_time then ''%Y-%m-%d'' else ''%Y-%m-%d %H:%M:%S'') = None \<longrightarrow>
      (\<exists>e. init E r start_date end_date include_time out exts srt = Inl e
          \<and> run E r start_date end_date include_time out exts srt fs = (Inl e, fs)))
   \<and> init E r (Some []) end_date include_time out exts srt
       = init E r None end_date include_time out exts srt
   \<and> init E r start_date (Some []) include_time out exts srt
       = init E r start_date None include_time out exts srt"
proof (intro conjI)
  show "truthy start_date
      \<and> strptime E (the start_date)
           (if \<not> include_time then ''%Y-%m-%d'' else ''%Y-%m-%d %H:%M:%S'') = None \<longrightarrow>
      init E r start_date end_date include_time out exts srt = Inl ValueError
      \<and> run E r start_date end_date include_time out exts srt fs = (Inl ValueError, fs)"
    by (auto simp: run_def init_def Let_def)
next
  show "truthy end_date
      \<and> strptime E (the end_date)
           (if \<not> include_time then ''%Y-%m-%d'' else ''%Y-%m-%d %H:%M:%S'') = None
      \<and> (truthy start_date \<or> 7 < toordinal (now_start E)) \<longrightarrow>
      init E r start_date end_date include_time out exts srt = Inl ValueError
      \<and> run E r start_date end_date include_time out exts srt fs = (Inl ValueError, fs)"
    by (auto simp: run_def init_def minus_days_def Let_def split: option.splits)
next
  show "truthy end_date
      \<and> strptime E (the end_date)
           (if \<not> include_time then ''%Y-%m-%d'' else ''%Y-%m-%d %H:%M:%S'') = None \<longrightarrow>
      (\<exists>e. init E r start_date end_date include_time out exts srt = Inl e
          \<and> run E r start_date end_date include_time out exts srt fs = (Inl e, fs))"
    by (auto simp: run_def init_def minus_days_def Let_def split: option.splits)
next
  have t: "truthy (Some []) = False" "truthy None = False"
    by (simp_all add: truthy_def)
  show "init E r (Some []) end_date include_time out exts srt
       = init E r None end_date include_time out exts srt"
    unfolding init_def t if_False by (rule refl)
next
  have t: "truthy (Some []) = False" "truthy None = False"
    by (simp_all add: truthy_def)
  show "init E r start_date (Some []) include_time out exts srt
       = init E r start_date None include_time out exts srt"
    unfolding init_def t if_False by (rule refl)
qed

text \<open>The instances: a start date and an end date in the wrong format, with a report
  of an earlier run in place.\<close>

theorem C8_witness:
  "truthy (Some ''14.01.2022'')
   \<and> strptime demo_env (the (Some ''14.01.2022'')) ''%Y-%m-%d'' = None
   \<and> truthy (Some ''2022-01-10'')
   \<and> strptime demo_env (the (Some ''2022-01-10'')) ''%Y-%m-%d'' \<noteq> None
   \<and> run demo_env None (Some ''14.01.2022'') None False None None False
        [''/home/user/founded_table.txt'' \<mapsto> ''earlier'']
      = (Inl ValueError, [''/home/user/founded_table.txt'' \<mapsto> ''earlier''])
   \<and> run demo_env None (Some ''2022-01-10'') (Some ''14.01.2022'') False None None False
        [''/home/user/founded_table.txt'' \<mapsto> ''earlier'']
      = (Inl ValueError, [''/home/user/founded_table.txt'' \<mapsto> ''earlier''])"
proof -
  have h1: "truthy (Some ''14.01.2022'')" "truthy (Some ''2022-01-10'')"
    by (simp_all add: truthy_def)
  have h2: "strptime demo_env (the (Some ''14.01.2022'')) ''%Y-%m-%d'' = None"
    by (simp add: demo_env_def demo_strptime_def)
  have h3: "strptime demo_env (the (Some ''2022-01-10'')) ''%Y-%m-%d'' \<noteq> None"
    by (simp add: demo_env_def demo_strptime_def)
  show ?thesis
    using h1 h2 h3
      C8_unparseable_date[where start_date = "Some ''14.01.2022''" and include_time = False
        and E = demo_env and r = None and end_date = None and out = None and exts = None
        and srt = False and fs = "[''/home/user/founded_table.txt'' \<mapsto> ''earlier'']"]
      C8_unparseable_date[where start_date = "Some ''2022-01-10''" and include_time = False
        and E = demo_env and r = None and end_date = "Some ''14.01.2022''" and out = None
        and exts = None and srt = False
        and fs = "[''/home/user/founded_table.txt'' \<mapsto> ''earlier'']"]
    by simp
qed

lemma demo_init_empty_start:
  "init demo_env (Some ''/home/user'') (Some []) None False None (Some [''md'']) False =
     Inr \<lparr>self_root = Some ''/home/user'', self_output_info_to = None,
          self_start_date = \<lparr>toordinal = 738162, hour = 0, minute = 0, second = 0, microsecond = 0\<rparr>,
          self_end_date = \<lparr>toordinal = 738169, hour = 23, minute = 59, second = 59, microsecond = 250\<rparr>,
          self_sort_info = False, self_extensions = Some {''.md''}\<rparr>"
  by (simp add: init_def demo_env_def demo_now_def truthy_def minus_days_def norm_ext_def
        startswith_def demo_lower_md_plain)

text \<open>Claim C8 as written fails for the empty string: \<^verbatim>\<open>strptime\<close> rejects it, yet
  with the start date \<^verbatim>\<open>""\<close> the constructor raises nothing, the run returns and the
  primary report is created.\<close>

theorem C8_counterexample:
  "strptime demo_env [] ''%Y-%m-%d'' = None
   \<and> (\<exists>v. fst (run demo_env (Some ''/home/user'') (Some []) None False None (Some [''md''])
                  False Map.empty) = Inr v)
   \<and> Map.empty ''/home/user/founded_table.txt'' = (None :: string option)
   \<and> snd (run demo_env (Some ''/home/user'') (Some []) None False None (Some [''md''])
            False Map.empty) ''/home/user/founded_table.txt'' \<noteq> None"
proof -
  let ?F = "\<lparr>self_root = Some ''/home/user'', self_output_info_to = None,
          self_start_date = \<lparr>toordinal = 738162, hour = 0, minute = 0, second = 0, microsecond = 0\<rparr>,
          self_end_date = \<lparr>toordinal = 738169, hour = 23, minute = 59, second = 59, microsecond = 250\<rparr>,
          self_sort_info = False, self_extensions = Some {''.md''}\<rparr>"
  have p: "strptime demo_env [] ''%Y-%m-%d'' = None"
    by (simp add: demo_env_def demo_strptime_def)
  have r: "run demo_env (Some ''/home/user'') (Some []) None False None (Some [''md''])
             False Map.empty = find_files demo_env ?F Map.empty"
    by (simp add: run_def demo_init_empty_start)
  have t1: "timestamp demo_env (self_start_date ?F) = Some 738162"
    by (simp add: demo_env_def demo_timestamp_def)
  have t2: "timestamp demo_env (self_end_date ?F)
      = Some (738169 + 86399 / 86400 + 250 / 86400000000)"
    by (simp add: demo_env_def demo_timestamp_def)
  have h: "self_root ?F = Some ''/home/user''" "self_output_info_to ?F = None"
    "self_extensions ?F = Some {''.md''}" by simp_all
  have v: "\<exists>v. fst (find_files demo_env ?F Map.empty) = Inr v"
    by (rule demo_find_files_returns_any[OF h(1,2) t1 t2 h(3)])
  have ff: "find_files demo_env ?F Map.empty
      = (fst (find_files demo_env ?F Map.empty), snd (find_files demo_env ?F Map.empty))"
    by simp
  from find_files_effect(1)[OF demo_resolve_dirs_any[OF h(1,2)] ff]
  have c: "snd (find_files demo_env ?F Map.empty) ''/home/user/founded_table.txt'' \<noteq> None"
    by (auto simp: demo_report_paths)
  from p v c show ?thesis unfolding r by simp
qed

section \<open>Where the code departs from its documentation\<close>

lemma demo_init_no_filter:
  "init demo_env (Some ''/home/user'') None None False None None False =
     Inr \<lparr>self_root = Some ''/home/user'', self_output_info_to = None,
          self_start_date = \<lparr>toordinal = 738162, hour = 0, minute = 0, second = 0, microsecond = 0\<rparr>,
          self_end_date = \<lparr>toordinal = 738169, hour = 23, minute = 59, second = 59, microsecond = 250\<rparr>,
          self_sort_info = False, self_extensions = None\<rparr>"
  "init demo_env (Some ''/home/user'') None None False None (Some []) False =
     Inr \<lparr>self_root = Some ''/home/user'', self_output_info_to = None,
          self_start_date = \<lparr>toordinal = 738162, hour = 0, minute = 0, second = 0, microsecond = 0\<rparr>,
          self_end_date = \<lparr>toordinal = 738169, hour = 23, minute = 59, second = 59, microsecond = 250\<rparr>,
          self_sort_info = False, self_extensions = None\<rparr>"
  by (simp_all add: init_def demo_env_def demo_now_def truthy_def minus_days_def)

lemma demo_find_files_no_filter:
  assumes "self_root self = Some ''/home/user''" and "self_output_info_to self = None"
    and "timestamp demo_env (self_start_date self) = Some sd"
    and "timestamp demo_env (self_end_date self) = Some ed"
    and "self_extensions self = None"
  shows "fst (find_files demo_env self fs) = Inl AttributeError"
proof -
  let ?self1 = "self\<lparr>self_root := Some ''/home/user'', self_output_info_to := Some ''/home/user''\<rparr>"
  have h1: "self_root ?self1 = Some ''/home/user''" by simp
  have h2: "timestamp demo_env (self_start_date ?self1) = Some sd" using assms(3) by simp
  have h3: "timestamp demo_env (self_end_date ?self1) = Some ed" using assms(4) by simp
  have h4: "self_extensions ?self1 = None" using assms(5) by simp
  show ?thesis
    unfolding find_files_resolved[OF demo_resolve_dirs_any[OF assms(1,2)]]
      demo_walker_no_filter[OF h1 h2 h3 h4]
    by simp
qed

text \<open>
  Claim C2 says that a run without an extension filter (\<^verbatim>\<open>extensions\<close> is \<^verbatim>\<open>None\<close> or
  empty) completes and matches every file by its dates alone, as the class documents.
  On the example tree such a run does not complete: the constructor never assigns
  \<^verbatim>\<open>_extensions\<close>, and line 129 raises \<^verbatim>\<open>AttributeError\<close> at the first file that
  exists.
\<close>

theorem C2_absent_filter_raises:
  "fst (run demo_env (Some ''/home/user'') None None False None None False Map.empty)
     = Inl AttributeError
   \<and> fst (run demo_env (Some ''/home/user'') None None False None (Some []) False Map.empty)
     = Inl AttributeError"
proof -
  let ?F = "\<lparr>self_root = Some ''/home/user'', self_output_info_to = None,
          self_start_date = \<lparr>toordinal = 738162, hour = 0, minute = 0, second = 0, microsecond = 0\<rparr>,
          self_end_date = \<lparr>toordinal = 738169, hour = 23, minute = 59, second = 59, microsecond = 250\<rparr>,
          self_sort_info = False, self_extensions = None\<rparr>"
  have t1: "timestamp demo_env (self_start_date ?F) = Some 738162"
    by (simp add: demo_env_def demo_timestamp_def)
  have t2: "timestamp demo_env (self_end_date ?F)
      = Some (738169 + 86399 / 86400 + 250 / 86400000000)"
    by (simp add: demo_env_def demo_timestamp_def)
  have h: "self_root ?F = Some ''/home/user''" "self_output_info_to ?F = None"
    "self_extensions ?F = None" by simp_all
  have "fst (find_files demo_env ?F Map.empty) = Inl AttributeError"
    by (rule demo_find_files_no_filter[OF h(1,2) t1 t2 h(3)])
  then show ?thesis by (simp add: run_def demo_init_no_filter)
qed

text \<open>
  Claim C3 says that the sorted table labels the times as the primary report does. For
  a file modified on Jan 10 2022 and created on Nov 6 2021 the sorted table line shows
  the creation time under \<^verbatim>\<open>mtime\<close> and the modification time under \<^verbatim>\<open>ctime\<close>
  (lines 157 and 158 read \<^verbatim>\<open>i[2]\<close> and \<^verbatim>\<open>i[1]\<close>), while the primary report line of
  the same tuple shows them the right way round.
\<close>

theorem C3_sorted_table_fields_swapped:
  "sorter_info_table demo_env (''/home/user/notes.md'', 1476331 / 2, 738100, 738100)
     = ''file=/home/user/notes.md   |   mtime=Sat Nov  6 00:00:00 2021''
       @ ''   |   ctime=Mon Jan 10 12:00:00 2022   |   atime=Sat Nov  6 00:00:00 2021''
   \<and> walker_line demo_env (''/home/user/notes.md'', 1476331 / 2, 738100, 738100)
     = ''file=/home/user/notes.md | mtime=Mon Jan 10 12:00:00 2022''
       @ '' | ctime=Sat Nov  6 00:00:00 2021 | atime=Sat Nov  6 00:00:00 2021'' @ nl"
  by (simp add: sorter_info_table_def walker_line_def demo_env_def demo_ctime_def)

end
